theory Spec2Isabelle
  imports Complex_Main "HOL-Library.Multiset" "HOL-Library.Log_Nat"
begin

section \<open>The quiz engine of the university CMS backend\<close>

text \<open>
  A shallow embedding of the quiz controller (\<^verbatim>\<open>controllers/quizController.js\<close>, the
  handlers \<^verbatim>\<open>createQuiz\<close>, \<^verbatim>\<open>startQuiz\<close>, \<^verbatim>\<open>submitQuiz\<close>, \<^verbatim>\<open>getQuizResults\<close>) and of the
  document schema it works on (\<^verbatim>\<open>models/Quiz.js\<close>).

  Conventions of the embedding.
  \<^item> A handler is a function from what it reads (the result of \<^verbatim>\<open>findById\<close>, the
    authenticated principal \<^verbatim>\<open>req.user\<close>, the request body, the clock value of
    \<^verbatim>\<open>new Date()\<close>) to either an error or the document it saves together with the JSON
    it answers. Every \<^verbatim>\<open>return res.status(...)\<close> of the source is an \<open>Inl\<close> branch.
  \<^item> Object ids are compared through \<^verbatim>\<open>toString()\<close> in the source; they are natural
    numbers here. Dates are compared through their millisecond value; they are
    integers here.
  \<^item> A JavaScript number is an IEEE 754 double: a rational that the binary64 format
    represents, or one of \<^verbatim>\<open>Infinity\<close>, \<^verbatim>\<open>-Infinity\<close>, \<^verbatim>\<open>NaN\<close>. Sums, quotients and
    products round to the nearest double, ties to even. The two zeros are one value:
    \<^verbatim>\<open>-0\<close> is \<^verbatim>\<open>0\<close> as an index and under \<^verbatim>\<open>===\<close>, and the one divisor of the handlers,
    \<^verbatim>\<open>totalMarks\<close>, is a sum that starts from \<^verbatim>\<open>0\<close>, which is never \<^verbatim>\<open>-0\<close>.
  \<^item> Every request carries a JSON object as its body (the application mounts
    \<^verbatim>\<open>express.json()\<close>), so that \<^verbatim>\<open>req.body\<close> can be destructured.
  \<^item> The body of a create request has the shape the schema casts it to. The
    \<^verbatim>\<open>answers\<close> of a submit request, which the handler reads before any cast, are
    either no array at all, or an array of objects whose \<^verbatim>\<open>questionIndex\<close> and
    \<^verbatim>\<open>selectedOption\<close> are numbers; other bodies are outside the model. Strings are
    byte strings, and \<^verbatim>\<open>trim\<close> is modelled on ASCII white space.
  \<^item> A request reads the clock once: the value of \<^verbatim>\<open>new Date()\<close> in the handler is
    also the time of its \<^verbatim>\<open>save()\<close>.
  \<^item> The \<^verbatim>\<open>_id\<close>s of the quiz, of its attempts and of their answers, which no handler
    reads, are outside the model.
\<close>

subsection \<open>JavaScript numbers\<close>

text \<open>A number: a finite value, or one of \<^verbatim>\<open>Infinity\<close>, \<^verbatim>\<open>-Infinity\<close>, \<^verbatim>\<open>NaN\<close>.\<close>

datatype number = Fin rat | PosInf | NegInf | NaN

text \<open>\<open>2\<close> to an integer power, and the binary exponent of a positive rational: the
  \<open>k\<close> with \<open>2 ^ k \<le> a < 2 ^ (k + 1)\<close>.\<close>

definition pow2 :: "int \<Rightarrow> rat" where
  "pow2 e = (if 0 \<le> e then 2 ^ nat e else 1 / 2 ^ nat (- e))"

definition floor_log2 :: "rat \<Rightarrow> int" where
  "floor_log2 a = (if 1 \<le> a then bitlen \<lfloor>a\<rfloor> - 1 else - bitlen (\<lceil>1 / a\<rceil> - 1))"

text \<open>Rounding to the nearest integer, a tie to the even one.\<close>

definition round_half_even :: "rat \<Rightarrow> int" where
  "round_half_even r =
     (let f = \<lfloor>r\<rfloor>; d = r - of_int f
      in if d < 1 / 2 then f else if 1 / 2 < d then f + 1 else if even f then f else f + 1)"

text \<open>Rounding a rational to binary64, to nearest and ties to even. A double is
  \<open>m * 2 ^ e\<close> with \<open>\<bar>m\<bar> < 2 ^ 53\<close> and \<open>- 1074 \<le> e \<le> 971\<close>. The exponent of the result is
  the one that leaves 53 bits, and not less than \<open>- 1074\<close> (below the normal range the
  spacing stays \<open>2 ^ - 1074\<close>); a result of \<open>2 ^ 1024\<close> or more is infinite.\<close>

definition round_double :: "rat \<Rightarrow> number" where
  "round_double x =
     (if x = 0 then Fin 0
      else
        let a = \<bar>x\<bar>;
            e = max (floor_log2 a - 52) (- 1074);
            v = of_int (round_half_even (a / pow2 e)) * pow2 e
        in if 2 ^ 1024 \<le> v then (if 0 < x then PosInf else NegInf) else Fin (sgn x * v))"

text \<open>A number that is a double: rounding leaves it as it is.\<close>

definition representable :: "number \<Rightarrow> bool" where
  "representable x = (case x of Fin r \<Rightarrow> round_double r = Fin r | _ \<Rightarrow> True)"

text \<open>\<^verbatim>\<open>x + y\<close>.\<close>

fun js_add :: "number \<Rightarrow> number \<Rightarrow> number" where
  "js_add (Fin a) (Fin b) = round_double (a + b)"
| "js_add NaN y = NaN"
| "js_add x NaN = NaN"
| "js_add PosInf NegInf = NaN"
| "js_add NegInf PosInf = NaN"
| "js_add PosInf y = PosInf"
| "js_add x PosInf = PosInf"
| "js_add NegInf y = NegInf"
| "js_add x NegInf = NegInf"

text \<open>\<^verbatim>\<open>x / y\<close>.\<close>

fun js_divide :: "number \<Rightarrow> number \<Rightarrow> number" where
  "js_divide (Fin a) (Fin b) =
     (if b \<noteq> 0 then round_double (a / b)
      else if 0 < a then PosInf
      else if a < 0 then NegInf
      else NaN)"
| "js_divide NaN y = NaN"
| "js_divide x NaN = NaN"
| "js_divide (Fin a) y = Fin 0"
| "js_divide PosInf (Fin b) = (if 0 \<le> b then PosInf else NegInf)"
| "js_divide NegInf (Fin b) = (if 0 \<le> b then NegInf else PosInf)"
| "js_divide x y = NaN"

text \<open>\<^verbatim>\<open>x * 100\<close>.\<close>

fun times100 :: "number \<Rightarrow> number" where
  "times100 (Fin r) = round_double (r * 100)"
| "times100 PosInf = PosInf"
| "times100 NegInf = NegInf"
| "times100 NaN = NaN"

text \<open>\<^verbatim>\<open>x <= y\<close>, \<^verbatim>\<open>x < y\<close> and \<^verbatim>\<open>x === y\<close> on numbers: every comparison with \<^verbatim>\<open>NaN\<close> is
  false.\<close>

fun js_le :: "number \<Rightarrow> number \<Rightarrow> bool" where
  "js_le (Fin a) (Fin b) = (a \<le> b)"
| "js_le NaN y = False"
| "js_le x NaN = False"
| "js_le NegInf y = True"
| "js_le x PosInf = True"
| "js_le x y = False"

fun js_lt :: "number \<Rightarrow> number \<Rightarrow> bool" where
  "js_lt (Fin a) (Fin b) = (a < b)"
| "js_lt NaN y = False"
| "js_lt x NaN = False"
| "js_lt PosInf y = False"
| "js_lt x NegInf = False"
| "js_lt x y = True"

definition js_eq :: "number \<Rightarrow> number \<Rightarrow> bool" where
  "js_eq x y \<longleftrightarrow> x = y \<and> x \<noteq> NaN"

subsection \<open>Data model (models/Quiz.js)\<close>

type_synonym object_id = nat
type_synonym date = int

datatype role = Admin | Teacher | Student

text \<open>The authenticated principal \<^verbatim>\<open>req.user\<close>: the handlers read \<^verbatim>\<open>_id\<close> and \<^verbatim>\<open>role\<close>.\<close>

record principal =
  uid :: object_id
  role :: role

text \<open>\<^verbatim>\<open>questionSchema\<close>. \<open>question_id\<close> is the \<^verbatim>\<open>_id\<close> of the subdocument, which
  \<^verbatim>\<open>startQuiz\<close> reads; the mapper gives it when it casts the request, so the questions
  of a request carry it already.\<close>

record question =
  question_id :: object_id
  questionText :: string
  options :: "string list"
  correctAnswer :: number
  marks :: number

text \<open>One element of \<^verbatim>\<open>attempts[].answers\<close>, which is also one element of the
  \<^verbatim>\<open>answers\<close> array of a submit request when its two fields are numbers.\<close>

record answer =
  questionIndex :: number
  selectedOption :: number

datatype status = InProgress | Completed

text \<open>One element of \<^verbatim>\<open>attempts\<close>. A field the schema leaves without default is
  \<open>None\<close> until it is assigned.\<close>

record attempt =
  student :: object_id
  answers :: "answer list"
  score :: "number option"
  percentage :: "number option"
  startedAt :: date
  submittedAt :: "date option"
  status :: status

text \<open>\<^verbatim>\<open>quizSchema\<close>. The type of the questions is a parameter: the stored document holds
  \<open>question\<close>s, the object answered by \<^verbatim>\<open>startQuiz\<close> holds the reduced questions.
  \<open>updatedAt\<close> is the field of the schema option \<^verbatim>\<open>timestamps: true\<close>: every \<^verbatim>\<open>save()\<close> of a
  new or modified document stamps it with the time of the save. \<open>version\<close> is the version
  key \<^verbatim>\<open>__v\<close>, which every schema has unless it opts out: it starts at 0, and a
  \<^verbatim>\<open>save()\<close> that pushes to an array or sets one increments it.\<close>

record 'q quiz_doc =
  title :: string
  description :: string
  subject :: object_id
  teacher :: object_id
  questions :: "'q list"
  totalMarks :: number
  duration :: number
  startDate :: date
  endDate :: date
  attempts :: "attempt list"
  isActive :: bool
  createdAt :: date
  updatedAt :: date
  version :: nat

type_synonym quiz = "question quiz_doc"

text \<open>The business errors of the handlers, by the status and message they answer:
  \<open>NotFound\<close> is 404 (\<^verbatim>\<open>Quiz not found\<close>, \<^verbatim>\<open>Subject not found\<close>), \<open>Forbidden\<close> is 403,
  \<open>QuizNotAvailable\<close> is 400 \<^verbatim>\<open>Quiz is not available at this time\<close>,
  \<open>AlreadyAttempted\<close> is 400 \<^verbatim>\<open>You have already attempted this quiz\<close>,
  \<open>NoActiveAttempt\<close> is 400 \<^verbatim>\<open>No active quiz attempt found\<close>, and \<open>ServerError\<close> is the
  500 of the \<^verbatim>\<open>catch\<close> block.\<close>

datatype error =
  NotFound | Forbidden | QuizNotAvailable | AlreadyAttempted | NoActiveAttempt | ServerError

subsection \<open>JavaScript primitives the handlers use\<close>

text \<open>\<^verbatim>\<open>xs[k]\<close> on an array, for a number \<open>k\<close>: the element when \<open>k\<close> is an index of the
  array, \<^verbatim>\<open>undefined\<close> otherwise (for a negative, a fractional or an infinite \<open>k\<close>).\<close>

definition at_index :: "'a list \<Rightarrow> number \<Rightarrow> 'a option" where
  "at_index xs k =
     (case k of
        Fin r \<Rightarrow>
          if of_int \<lfloor>r\<rfloor> = r \<and> 0 \<le> r \<and> \<lfloor>r\<rfloor> < int (length xs) then Some (xs ! nat \<lfloor>r\<rfloor>)
          else None
      | _ \<Rightarrow> None)"

text \<open>\<^verbatim>\<open>String.prototype.trim\<close>, on the ASCII white space.\<close>

definition is_space :: "char \<Rightarrow> bool" where
  "is_space c \<longleftrightarrow>
     c = CHR '' '' \<or> c = CHR 0x09 \<or> c = CHR 0x0A \<or> c = CHR 0x0B \<or> c = CHR 0x0C \<or> c = CHR 0x0D"

definition trim :: "string \<Rightarrow> string" where
  "trim s = rev (dropWhile is_space (rev (dropWhile is_space s)))"

text \<open>An assignment to the fields of the element that \<^verbatim>\<open>Array.prototype.find\<close> returned:
  the first element that satisfies the predicate is the one that changes.\<close>

fun update_first :: "('a \<Rightarrow> bool) \<Rightarrow> ('a \<Rightarrow> 'a) \<Rightarrow> 'a list \<Rightarrow> 'a list" where
  "update_first P f [] = []"
| "update_first P f (x # xs) = (if P x then f x # xs else x # update_first P f xs)"

subsection \<open>Schema validation at save time\<close>

text \<open>The validators \<^verbatim>\<open>questionSchema\<close> declares: \<^verbatim>\<open>questionText\<close> required (a required
  string is a non-empty one), every element of \<^verbatim>\<open>options\<close> required, \<^verbatim>\<open>correctAnswer\<close>
  with \<^verbatim>\<open>min: 0\<close>, \<^verbatim>\<open>marks\<close> with \<^verbatim>\<open>min: 1\<close> (the validator is \<^verbatim>\<open>value >= min\<close>). The schema
  relates neither the length of \<^verbatim>\<open>options\<close> nor \<^verbatim>\<open>correctAnswer\<close> to anything else.\<close>

definition valid_question :: "question \<Rightarrow> bool" where
  "valid_question q \<longleftrightarrow>
     questionText q \<noteq> [] \<and> list_all (\<lambda>opt. opt \<noteq> []) (options q)
     \<and> js_le (Fin 0) (correctAnswer q) \<and> js_le (Fin 1) (marks q)"

text \<open>The caster of a \<^verbatim>\<open>Number\<close> path accepts every number but \<^verbatim>\<open>NaN\<close>: a document
  with \<^verbatim>\<open>NaN\<close> assigned to such a path fails validation, and \<^verbatim>\<open>save()\<close> rejects.\<close>

definition castable :: "number \<Rightarrow> bool" where
  "castable x \<longleftrightarrow> x \<noteq> NaN"

text \<open>The validators \<^verbatim>\<open>quizSchema\<close> declares, on a document whose typed fields are all
  present: \<^verbatim>\<open>title\<close> required, \<^verbatim>\<open>duration\<close> with \<^verbatim>\<open>min: 1\<close>, a \<^verbatim>\<open>totalMarks\<close> that can be
  cast, and the validators of every question.\<close>

definition valid_quiz :: "quiz \<Rightarrow> bool" where
  "valid_quiz q \<longleftrightarrow>
     title q \<noteq> [] \<and> list_all valid_question (questions q) \<and> js_le (Fin 1) (duration q)
     \<and> castable (totalMarks q)"

subsection \<open>createQuiz\<close>

text \<open>The request body of \<^verbatim>\<open>POST /api/quizzes\<close>, and the one field of a subject
  document the handler reads (\<^verbatim>\<open>teacher\<close>, which may be \<^verbatim>\<open>null\<close>).\<close>

record create_body =
  body_title :: string
  body_description :: string
  subjectId :: object_id
  body_questions :: "question list"
  body_duration :: number
  body_startDate :: date
  body_endDate :: date

record subject_doc =
  subject_teacher :: "object_id option"

text \<open>\<^verbatim>\<open>questions.reduce((sum, q) => sum + q.marks, 0)\<close>.\<close>

definition sum_marks :: "question list \<Rightarrow> number" where
  "sum_marks qs = foldl (\<lambda>sum q. js_add sum (marks q)) (Fin 0) qs"

text \<open>\<^verbatim>\<open>createQuiz\<close>. The route attaches the \<^verbatim>\<open>quizValidation\<close> chains, but no handler
  reads their result, so they reject nothing; what rejects a document is the schema,
  inside \<^verbatim>\<open>Quiz.create\<close>, whose exception the \<^verbatim>\<open>catch\<close> block answers with 500.
  \<^verbatim>\<open>subject.teacher.toString()\<close> on a subject without teacher is a \<^verbatim>\<open>TypeError\<close>, caught
  the same way. The result \<open>Inr q\<close> is the persisted document, answered with 201.\<close>

definition createQuiz ::
  "(object_id \<rightharpoonup> subject_doc) \<Rightarrow> create_body \<Rightarrow> principal \<Rightarrow> date \<Rightarrow> error + quiz" where
  "createQuiz subjects body user now =
     (case subjects (subjectId body) of
        None \<Rightarrow> Inl NotFound
      | Some subj \<Rightarrow>
          (case subject_teacher subj of
             None \<Rightarrow> Inl ServerError
           | Some t \<Rightarrow>
               if t \<noteq> uid user then Inl Forbidden
               else
                 let quiz = \<lparr> title = trim (body_title body),
                              description = trim (body_description body),
                              subject = subjectId body,
                              teacher = uid user,
                              questions = body_questions body,
                              totalMarks = sum_marks (body_questions body),
                              duration = body_duration body,
                              startDate = body_startDate body,
                              endDate = body_endDate body,
                              attempts = [],
                              isActive = True,
                              createdAt = now,
                              updatedAt = now,
                              version = 0 \<rparr>
                 in if valid_quiz quiz then Inr quiz else Inl ServerError))"

subsection \<open>startQuiz\<close>

text \<open>The question as \<^verbatim>\<open>startQuiz\<close> answers it: \<^verbatim>\<open>_id\<close>, \<^verbatim>\<open>questionText\<close>, \<^verbatim>\<open>options\<close>
  and \<^verbatim>\<open>marks\<close>, and nothing else of the stored question.\<close>

record question_data =
  data_id :: object_id
  data_questionText :: string
  data_options :: "string list"
  data_marks :: number

definition strip_question :: "question \<Rightarrow> question_data" where
  "strip_question q =
     \<lparr> data_id = question_id q, data_questionText = questionText q,
       data_options = options q, data_marks = marks q \<rparr>"

text \<open>\<^verbatim>\<open>quiz.toObject()\<close> followed by the replacement of \<^verbatim>\<open>questions\<close>.\<close>

definition quizData :: "quiz \<Rightarrow> question_data quiz_doc" where
  "quizData q =
     \<lparr> title = title q, description = description q, subject = subject q,
       teacher = teacher q, questions = map strip_question (questions q),
       totalMarks = totalMarks q, duration = duration q, startDate = startDate q,
       endDate = endDate q, attempts = attempts q, isActive = isActive q,
       createdAt = createdAt q, updatedAt = updatedAt q, version = version q \<rparr>"

text \<open>The attempt \<^verbatim>\<open>startQuiz\<close> pushes: \<^verbatim>\<open>student\<close>, \<^verbatim>\<open>startedAt\<close> and \<^verbatim>\<open>status\<close> are given,
  \<^verbatim>\<open>answers\<close> is the empty array an array path starts with.\<close>

definition new_attempt :: "object_id \<Rightarrow> date \<Rightarrow> attempt" where
  "new_attempt s now =
     \<lparr> student = s, answers = [], score = None, percentage = None,
       startedAt = now, submittedAt = None, status = InProgress \<rparr>"

text \<open>\<^verbatim>\<open>startQuiz\<close>: the first argument is what \<^verbatim>\<open>Quiz.findById(req.params.id)\<close>
  returned. On success the result is the document passed to \<^verbatim>\<open>save()\<close> and the JSON
  answered.\<close>

definition startQuiz ::
  "quiz option \<Rightarrow> principal \<Rightarrow> date \<Rightarrow> error + quiz \<times> question_data quiz_doc" where
  "startQuiz found user now =
     (case found of
        None \<Rightarrow> Inl NotFound
      | Some quiz \<Rightarrow>
          if now < startDate quiz \<or> now > endDate quiz then Inl QuizNotAvailable
          else
            (case find (\<lambda>a. student a = uid user) (attempts quiz) of
               Some existingAttempt \<Rightarrow> Inl AlreadyAttempted
             | None \<Rightarrow>
                 let quiz' = quiz\<lparr>attempts := attempts quiz @ [new_attempt (uid user) now],
                                  updatedAt := now, version := version quiz + 1\<rparr>
                 in Inr (quiz', quizData quiz')))"

subsection \<open>submitQuiz\<close>

text \<open>\<^verbatim>\<open>req.body.answers\<close> as the handler finds it: a value on which \<^verbatim>\<open>forEach\<close> cannot be
  called (the field is absent, or is no array), or an array of answers.\<close>

datatype answers_body = NoArray | Answers "answer list"

text \<open>The body of the \<^verbatim>\<open>forEach\<close> loop, as a step on the running score.\<close>

definition score_step :: "question list \<Rightarrow> number \<Rightarrow> answer \<Rightarrow> number" where
  "score_step qs sc a =
     (case at_index qs (questionIndex a) of
        None \<Rightarrow> sc
      | Some q \<Rightarrow> if js_eq (correctAnswer q) (selectedOption a) then js_add sc (marks q) else sc)"

text \<open>\<^verbatim>\<open>let score = 0; answers.forEach(...)\<close>.\<close>

definition calculate_score :: "question list \<Rightarrow> answer list \<Rightarrow> number" where
  "calculate_score qs as = foldl (score_step qs) (Fin 0) as"

text \<open>The JSON \<^verbatim>\<open>submitQuiz\<close> answers: the numbers as the handler passes them to
  \<^verbatim>\<open>res.json\<close>.\<close>

record submit_response =
  message :: string
  res_score :: number
  res_totalMarks :: number
  res_percentage :: number

text \<open>The five assignments to the attempt found.\<close>

definition complete_attempt ::
  "answer list \<Rightarrow> number \<Rightarrow> number \<Rightarrow> date \<Rightarrow> attempt \<Rightarrow> attempt" where
  "complete_attempt as sc pc now a =
     a\<lparr> answers := as, score := Some sc, percentage := Some pc,
        submittedAt := Some now, status := Completed \<rparr>"

text \<open>The predicate of \<^verbatim>\<open>quiz.attempts.find\<close> in \<^verbatim>\<open>submitQuiz\<close>: an attempt of the
  requester that is in progress.\<close>

definition active_for :: "principal \<Rightarrow> attempt \<Rightarrow> bool" where
  "active_for user a \<longleftrightarrow> student a = uid user \<and> status a = InProgress"

text \<open>The casts of \<^verbatim>\<open>save()\<close> on the paths the handler assigned: the two numbers of
  every answer, the score and the percentage.\<close>

definition castable_answer :: "answer \<Rightarrow> bool" where
  "castable_answer a \<longleftrightarrow> castable (questionIndex a) \<and> castable (selectedOption a)"

text \<open>\<^verbatim>\<open>submitQuiz\<close>. The body is read after the attempt is found: \<^verbatim>\<open>answers.forEach\<close>
  throws on a body without an array, and the \<^verbatim>\<open>catch\<close> block answers 500. The clock is
  read for \<^verbatim>\<open>submittedAt\<close> only. A \<^verbatim>\<open>NaN\<close> (such as the percentage \<^verbatim>\<open>0 / 0 * 100\<close>) cannot be
  cast into a \<^verbatim>\<open>Number\<close> path, so \<^verbatim>\<open>save()\<close> rejects and the \<^verbatim>\<open>catch\<close> block answers 500.
  The \<^verbatim>\<open>save()\<close> that succeeds writes the attempt and moves \<open>updatedAt\<close>. It increments
  the version key when it sets an array, that is, when \<^verbatim>\<open>answers\<close> has changed: an empty
  array assigned over an empty array is no change, and the other four assignments set
  fields of one array element, which leaves the version key as it is.\<close>

definition submitQuiz ::
  "quiz option \<Rightarrow> principal \<Rightarrow> answers_body \<Rightarrow> date \<Rightarrow> error + quiz \<times> submit_response" where
  "submitQuiz found user body now =
     (case found of
        None \<Rightarrow> Inl NotFound
      | Some quiz \<Rightarrow>
          (case find (active_for user) (attempts quiz) of
             None \<Rightarrow> Inl NoActiveAttempt
           | Some attempt \<Rightarrow>
               (case body of
                  NoArray \<Rightarrow> Inl ServerError
                | Answers as \<Rightarrow>
                    let sc = calculate_score (questions quiz) as;
                        pc = times100 (js_divide sc (totalMarks quiz))
                    in if \<not> (list_all castable_answer as \<and> castable sc \<and> castable pc)
                       then Inl ServerError
                       else
                         Inr (quiz\<lparr>attempts :=
                                    update_first (active_for user)
                                      (complete_attempt as sc pc now) (attempts quiz),
                                  updatedAt := now,
                                  version :=
                                    (if as = [] \<and> answers attempt = [] then version quiz
                                     else version quiz + 1)\<rparr>,
                              \<lparr> message = ''Quiz submitted successfully'', res_score = sc,
                                res_totalMarks = totalMarks quiz, res_percentage = pc \<rparr>))))"

subsection \<open>getQuizResults\<close>

text \<open>What \<^verbatim>\<open>populate('attempts.student', 'name enrollmentNumber')\<close> puts in place of a
  student id: the selected fields of the user document, or \<^verbatim>\<open>null\<close> when there is
  no such user.\<close>

record student_identity =
  student_id :: object_id
  student_name :: string
  enrollmentNumber :: string

record result_entry =
  result_student :: "student_identity option"
  result_score :: "number option"
  result_percentage :: "number option"
  result_submittedAt :: "date option"

record results_response =
  quizTitle :: string
  results_totalMarks :: number
  totalStudents :: nat
  results :: "result_entry list"

definition result_of :: "(object_id \<rightharpoonup> student_identity) \<Rightarrow> attempt \<Rightarrow> result_entry" where
  "result_of users a =
     \<lparr> result_student = users (student a), result_score = score a,
       result_percentage = percentage a, result_submittedAt = submittedAt a \<rparr>"

definition getQuizResults ::
  "(object_id \<rightharpoonup> student_identity) \<Rightarrow> quiz option \<Rightarrow> principal \<Rightarrow> error + results_response" where
  "getQuizResults users found user =
     (case found of
        None \<Rightarrow> Inl NotFound
      | Some quiz \<Rightarrow>
          if teacher quiz \<noteq> uid user \<and> role user \<noteq> Admin then Inl Forbidden
          else
            let rs = map (result_of users) (filter (\<lambda>a. status a = Completed) (attempts quiz))
            in Inr \<lparr> quizTitle = title quiz, results_totalMarks = totalMarks quiz,
                     totalStudents = length rs, results = rs \<rparr>)"

subsection \<open>Requests handled one after the other\<close>

text \<open>A start or a submit request on one quiz document. \<open>handle\<close> is the document the
  store holds after the request: the one the handler saved, or the old one when the
  handler answered an error (no branch that answers an error calls \<^verbatim>\<open>save()\<close>).\<close>

datatype request = Start principal date | Submit principal answers_body date

fun handle :: "quiz \<Rightarrow> request \<Rightarrow> quiz" where
  "handle q (Start user now) =
     (case startQuiz (Some q) user now of Inl e \<Rightarrow> q | Inr (q', d) \<Rightarrow> q')"
| "handle q (Submit user body now) =
     (case submitQuiz (Some q) user body now of Inl e \<Rightarrow> q | Inr (q', r) \<Rightarrow> q')"

text \<open>At most one attempt per student.\<close>

definition attempts_unique :: "'q quiz_doc \<Rightarrow> bool" where
  "attempts_unique q \<longleftrightarrow> distinct (map student (attempts q))"

subsection \<open>Two startQuiz calls in flight\<close>

text \<open>\<^verbatim>\<open>startQuiz\<close> suspends twice: at \<^verbatim>\<open>await Quiz.findById(...)\<close> and at
  \<^verbatim>\<open>await quiz.save()\<close>. Between the two it runs without interruption, on its own copy
  of the document. A call is therefore in one of three phases, and a step of the
  server advances one call: from \<open>Reading\<close> it loads the stored document; from
  \<open>Loaded\<close> it runs the handler on the copy it loaded and, on success, saves.
  \<^verbatim>\<open>save()\<close> of a document whose array was pushed to sends the pushed elements, which
  the store appends to the array it holds, the new \<open>updatedAt\<close>, and an increment of the
  version key; the update does not depend on the version the call loaded.\<close>

datatype phase = Reading | Loaded quiz | Answered "error + question_data quiz_doc"

record start_call =
  caller :: principal
  clock :: date
  phase :: phase

record server =
  stored :: quiz
  calls :: "start_call list"

definition save_pushed :: "quiz \<Rightarrow> quiz \<Rightarrow> quiz \<Rightarrow> quiz" where
  "save_pushed loaded doc store =
     store\<lparr>attempts := attempts store @ drop (length (attempts loaded)) (attempts doc),
           updatedAt := updatedAt doc, version := version store + 1\<rparr>"

definition advance :: "server \<Rightarrow> nat \<Rightarrow> server" where
  "advance s i =
     (if i < length (calls s) then
        let c = calls s ! i in
        (case phase c of
           Reading \<Rightarrow> s\<lparr>calls := (calls s)[i := c\<lparr>phase := Loaded (stored s)\<rparr>]\<rparr>
         | Loaded quiz \<Rightarrow>
             (case startQuiz (Some quiz) (caller c) (clock c) of
                Inl e \<Rightarrow> s\<lparr>calls := (calls s)[i := c\<lparr>phase := Answered (Inl e)\<rparr>]\<rparr>
              | Inr (doc, d) \<Rightarrow>
                  s\<lparr>stored := save_pushed quiz doc (stored s),
                    calls := (calls s)[i := c\<lparr>phase := Answered (Inr d)\<rparr>]\<rparr>)
         | Answered r \<Rightarrow> s)
      else s)"

definition succeeded :: "start_call \<Rightarrow> bool" where
  "succeeded c = (case phase c of Answered (Inr d) \<Rightarrow> True | _ \<Rightarrow> False)"

subsection \<open>The scoring rule in the words of the specification\<close>

text \<open>What one answer earns: the marks of the question it names when that question
  exists and its correct option is the selected one, nothing otherwise. The earned
  marks of a list of answers are what its answers earn, in their order.\<close>

definition earns :: "question list \<Rightarrow> answer \<Rightarrow> number option" where
  "earns qs a =
     (case at_index qs (questionIndex a) of
        None \<Rightarrow> None
      | Some q \<Rightarrow> if js_eq (correctAnswer q) (selectedOption a) then Some (marks q) else None)"

definition earned_marks :: "question list \<Rightarrow> answer list \<Rightarrow> number list" where
  "earned_marks qs as = List.map_filter (earns qs) as"

text \<open>A number that is a natural number, and the sum of finite numbers as a sum of
  rationals.\<close>

definition natural :: "number \<Rightarrow> bool" where
  "natural x = (case x of Fin r \<Rightarrow> 0 \<le> r \<and> of_int \<lfloor>r\<rfloor> = r | _ \<Rightarrow> False)"

fun rat_of :: "number \<Rightarrow> rat" where
  "rat_of (Fin r) = r"
| "rat_of x = 0"

definition exact_sum :: "number list \<Rightarrow> rat" where
  "exact_sum ms = sum_list (map rat_of ms)"

text \<open>\<open>100 * score / totalMarks\<close>, computed on doubles from left to right.\<close>

definition percentage_as_specified :: "number \<Rightarrow> number \<Rightarrow> number" where
  "percentage_as_specified sc tm = js_divide (times100 sc) tm"

text \<open>A quiz with other correct answers: the \<open>i\<close>-th question gets the \<open>i\<close>-th index of
  the list.\<close>

definition with_correct :: "number list \<Rightarrow> quiz \<Rightarrow> quiz" where
  "with_correct cs q =
     q\<lparr>questions := map (\<lambda>(qu, c). qu\<lparr>correctAnswer := c\<rparr>) (zip (questions q) cs)\<rparr>"

subsection \<open>Example documents\<close>

definition example_teacher :: principal where
  "example_teacher = \<lparr> uid = 2, role = Teacher \<rparr>"

definition other_teacher :: principal where
  "other_teacher = \<lparr> uid = 3, role = Teacher \<rparr>"

definition example_admin :: principal where
  "example_admin = \<lparr> uid = 4, role = Admin \<rparr>"

definition example_student :: principal where
  "example_student = \<lparr> uid = 7, role = Student \<rparr>"

definition example_subjects :: "object_id \<rightharpoonup> subject_doc" where
  "example_subjects = [1 \<mapsto> \<lparr> subject_teacher = Some 2 \<rparr>]"

definition example_questions :: "question list" where
  "example_questions =
     [\<lparr> question_id = 11, questionText = ''Q1'', options = [''a'', ''b''], correctAnswer = Fin 1, marks = Fin 5 \<rparr>,
      \<lparr> question_id = 12, questionText = ''Q2'', options = [''a'', ''b''], correctAnswer = Fin 0, marks = Fin 3 \<rparr>]"

definition example_body :: create_body where
  "example_body =
     \<lparr> body_title = '' Quiz '', body_description = [], subjectId = 1,
       body_questions = example_questions, body_duration = Fin 30,
       body_startDate = 100, body_endDate = 200 \<rparr>"

text \<open>The document \<^verbatim>\<open>createQuiz\<close> persists for \<open>example_body\<close>, and the same document
  after the student has started it at time 120.\<close>

definition example_created :: quiz where
  "example_created =
     \<lparr> title = ''Quiz'', description = [], subject = 1, teacher = 2,
       questions = example_questions, totalMarks = Fin 8, duration = Fin 30,
       startDate = 100, endDate = 200, attempts = [],
       isActive = True, createdAt = 50, updatedAt = 50, version = 0 \<rparr>"

definition example_quiz :: quiz where
  "example_quiz =
     example_created\<lparr>attempts := [new_attempt 7 120], updatedAt := 120, version := 1\<rparr>"

text \<open>A request without questions, one whose window ends before it starts, and one
  whose questions have no option or a correct index past the options.\<close>

definition empty_body :: create_body where
  "empty_body = example_body\<lparr>body_questions := []\<rparr>"

definition empty_created :: quiz where
  "empty_created = example_created\<lparr>questions := [], totalMarks := Fin 0\<rparr>"

definition empty_quiz :: quiz where
  "empty_quiz =
     empty_created\<lparr>attempts := [new_attempt 7 120], updatedAt := 120, version := 1\<rparr>"

definition reversed_body :: create_body where
  "reversed_body = example_body\<lparr>body_startDate := 200, body_endDate := 100\<rparr>"

definition reversed_quiz :: quiz where
  "reversed_quiz = example_created\<lparr>startDate := 200, endDate := 100\<rparr>"

definition unchecked_questions :: "question list" where
  "unchecked_questions =
     [\<lparr> question_id = 11, questionText = ''Q1'', options = [], correctAnswer = Fin 0, marks = Fin 1 \<rparr>,
      \<lparr> question_id = 12, questionText = ''Q2'', options = [''a''], correctAnswer = Fin 5, marks = Fin 1 \<rparr>]"

definition unchecked_body :: create_body where
  "unchecked_body = example_body\<lparr>body_questions := unchecked_questions\<rparr>"

definition unchecked_quiz :: quiz where
  "unchecked_quiz = example_created\<lparr>questions := unchecked_questions, totalMarks := Fin 2\<rparr>"

text \<open>A document that holds two in-progress attempts of one student, and two calls of
  that student waiting to read the freshly created document.\<close>

definition doubled_quiz :: quiz where
  "doubled_quiz =
     example_created\<lparr>attempts := [new_attempt 7 120, new_attempt 7 121], updatedAt := 121,
       version := 2\<rparr>"

definition racing_server :: server where
  "racing_server =
     \<lparr> stored = example_created,
       calls = [\<lparr> caller = example_student, clock = 120, phase = Reading \<rparr>,
                \<lparr> caller = example_student, clock = 121, phase = Reading \<rparr>] \<rparr>"

definition right_answers :: "answer list" where
  "right_answers =
     [\<lparr> questionIndex = Fin 0, selectedOption = Fin 1 \<rparr>, \<lparr> questionIndex = Fin 1, selectedOption = Fin 0 \<rparr>]"

definition wrong_answers :: "answer list" where
  "wrong_answers =
     [\<lparr> questionIndex = Fin 0, selectedOption = Fin 0 \<rparr>, \<lparr> questionIndex = Fin 1, selectedOption = Fin 1 \<rparr>]"

text \<open>The example quiz after the student has submitted the right answers at time 150,
  and a sequence of requests of that student.\<close>

definition example_completed :: quiz where
  "example_completed =
     example_created\<lparr>attempts :=
         [complete_attempt right_answers (Fin 8) (Fin 100) 150 (new_attempt 7 120)],
       updatedAt := 150, version := 2\<rparr>"

definition example_requests :: "request list" where
  "example_requests =
     [Start example_student 130, Submit example_student (Answers right_answers) 150,
      Start example_student 160]"

text \<open>A request with a negative correct index.\<close>

definition negative_body :: create_body where
  "negative_body =
     example_body\<lparr>body_questions :=
       [\<lparr> question_id = 11, questionText = ''Q1'', options = [''a'', ''b''], correctAnswer = Fin (- 1), marks = Fin 5 \<rparr>]\<rparr>"

text \<open>A quiz with one completed and one in-progress attempt, and the users its
  attempts refer to.\<close>

definition results_quiz :: quiz where
  "results_quiz =
     example_created\<lparr>attempts :=
       [complete_attempt right_answers (Fin 8) (Fin 100) 150 (new_attempt 7 120), new_attempt 8 130],
       updatedAt := 150, version := 3\<rparr>"

definition example_users :: "object_id \<rightharpoonup> student_identity" where
  "example_users =
     [7 \<mapsto> \<lparr> student_id = 7, student_name = ''Ada'', enrollmentNumber = ''E7'' \<rparr>,
      8 \<mapsto> \<lparr> student_id = 8, student_name = ''Bob'', enrollmentNumber = ''E8'' \<rparr>]"

text \<open>A quiz with three in-progress attempts, the same quiz after the student with id 7
  has submitted the right answers at time 150, and the answer to that submission.\<close>

definition frame_quiz :: quiz where
  "frame_quiz =
     example_created\<lparr>attempts := [new_attempt 8 110, new_attempt 7 120, new_attempt 9 130],
       updatedAt := 130, version := 3\<rparr>"

definition frame_submitted :: quiz where
  "frame_submitted =
     example_created\<lparr>attempts :=
       [new_attempt 8 110,
        (new_attempt 7 120)\<lparr> answers := right_answers, score := Some (Fin 8), percentage := Some (Fin 100),
          submittedAt := Some 150, status := Completed \<rparr>,
        new_attempt 9 130],
       updatedAt := 150, version := 4\<rparr>"

definition example_response :: submit_response where
  "example_response =
     \<lparr> message = ''Quiz submitted successfully'', res_score = Fin 8, res_totalMarks = Fin 8,
       res_percentage = Fin 100 \<rparr>"

text \<open>Answers with a repetition and with two question indices out of range.\<close>

definition repeated_answers :: "answer list" where
  "repeated_answers =
     [\<lparr>questionIndex = Fin 0, selectedOption = Fin 1\<rparr>, \<lparr>questionIndex = Fin 5, selectedOption = Fin 0\<rparr>,
      \<lparr>questionIndex = Fin (- 1), selectedOption = Fin 1\<rparr>, \<lparr>questionIndex = Fin 0, selectedOption = Fin 1\<rparr>]"

text \<open>A quiz of 100 marks in which the first question is worth 7, started by the
  student, and the right answer to its first question alone.\<close>

definition percent_questions :: "question list" where
  "percent_questions =
     [\<lparr> question_id = 11, questionText = ''Q1'', options = [''a'', ''b''], correctAnswer = Fin 1, marks = Fin 7 \<rparr>,
      \<lparr> question_id = 12, questionText = ''Q2'', options = [''a'', ''b''], correctAnswer = Fin 0, marks = Fin 93 \<rparr>]"

definition percent_body :: create_body where
  "percent_body = example_body\<lparr>body_questions := percent_questions\<rparr>"

definition percent_created :: quiz where
  "percent_created = example_created\<lparr>questions := percent_questions, totalMarks := Fin 100\<rparr>"

definition percent_quiz :: quiz where
  "percent_quiz =
     percent_created\<lparr>attempts := [new_attempt 7 120], updatedAt := 120, version := 1\<rparr>"

definition first_answer :: "answer list" where
  "first_answer = [\<lparr> questionIndex = Fin 0, selectedOption = Fin 1 \<rparr>]"

text \<open>A quiz whose first question is worth \<open>2 ^ 53\<close> marks and whose other two questions
  are worth one mark each, started by the student, and the right answers to its three
  questions in two orders.\<close>

definition large_questions :: "question list" where
  "large_questions =
     [\<lparr> question_id = 11, questionText = ''Q1'', options = [''a'', ''b''], correctAnswer = Fin 0,
        marks = Fin 9007199254740992 \<rparr>,
      \<lparr> question_id = 12, questionText = ''Q2'', options = [''a'', ''b''], correctAnswer = Fin 0, marks = Fin 1 \<rparr>,
      \<lparr> question_id = 13, questionText = ''Q3'', options = [''a'', ''b''], correctAnswer = Fin 0, marks = Fin 1 \<rparr>]"

definition large_body :: create_body where
  "large_body = example_body\<lparr>body_questions := large_questions\<rparr>"

definition large_created :: quiz where
  "large_created =
     example_created\<lparr>questions := large_questions, totalMarks := Fin 9007199254740992\<rparr>"

definition large_quiz :: quiz where
  "large_quiz =
     large_created\<lparr>attempts := [new_attempt 7 120], updatedAt := 120, version := 1\<rparr>"

definition ascending_answers :: "answer list" where
  "ascending_answers =
     [\<lparr> questionIndex = Fin 0, selectedOption = Fin 0 \<rparr>, \<lparr> questionIndex = Fin 1, selectedOption = Fin 0 \<rparr>,
      \<lparr> questionIndex = Fin 2, selectedOption = Fin 0 \<rparr>]"

definition descending_answers :: "answer list" where
  "descending_answers =
     [\<lparr> questionIndex = Fin 2, selectedOption = Fin 0 \<rparr>, \<lparr> questionIndex = Fin 1, selectedOption = Fin 0 \<rparr>,
      \<lparr> questionIndex = Fin 0, selectedOption = Fin 0 \<rparr>]"

text \<open>A quiz whose questions are worth \<^verbatim>\<open>1.1\<close>, \<^verbatim>\<open>1.2\<close> and \<^verbatim>\<open>1.3\<close> marks (the doubles that
  these decimals denote), started by the student.\<close>

definition fraction_questions :: "question list" where
  "fraction_questions =
     [\<lparr> question_id = 11, questionText = ''Q1'', options = [''a'', ''b''], correctAnswer = Fin 0,
        marks = Fin (2476979795053773 / 2251799813685248) \<rparr>,
      \<lparr> question_id = 12, questionText = ''Q2'', options = [''a'', ''b''], correctAnswer = Fin 0,
        marks = Fin (5404319552844595 / 4503599627370496) \<rparr>,
      \<lparr> question_id = 13, questionText = ''Q3'', options = [''a'', ''b''], correctAnswer = Fin 0,
        marks = Fin (5854679515581645 / 4503599627370496) \<rparr>]"

definition fraction_body :: create_body where
  "fraction_body = example_body\<lparr>body_questions := fraction_questions\<rparr>"

definition fraction_created :: quiz where
  "fraction_created =
     example_created\<lparr>questions := fraction_questions,
       totalMarks := Fin (2026619832316723 / 562949953421312)\<rparr>"

definition fraction_quiz :: quiz where
  "fraction_quiz =
     fraction_created\<lparr>attempts := [new_attempt 7 120], updatedAt := 120, version := 1\<rparr>"

text \<open>A quiz whose one question is worth \<^verbatim>\<open>Infinity\<close> marks (the number that the JSON
  literal \<^verbatim>\<open>1e999\<close> denotes), started by the student, and the right answer to it.\<close>

definition infinite_questions :: "question list" where
  "infinite_questions =
     [\<lparr> question_id = 11, questionText = ''Q1'', options = [''a'', ''b''], correctAnswer = Fin 0,
        marks = PosInf \<rparr>]"

definition infinite_body :: create_body where
  "infinite_body = example_body\<lparr>body_questions := infinite_questions\<rparr>"

definition infinite_created :: quiz where
  "infinite_created = example_created\<lparr>questions := infinite_questions, totalMarks := PosInf\<rparr>"

definition infinite_quiz :: quiz where
  "infinite_quiz =
     infinite_created\<lparr>attempts := [new_attempt 7 120], updatedAt := 120, version := 1\<rparr>"

definition only_answer :: "answer list" where
  "only_answer = [\<lparr> questionIndex = Fin 0, selectedOption = Fin 0 \<rparr>]"


section \<open>Properties\<close>

subsection \<open>Rounding to a double\<close>

lemma bitlen_Bit0: "bitlen (numeral (Num.Bit0 n)) = bitlen (numeral n) + 1"
  by (subst compute_bitlen) simp

lemma bitlen_Bit1: "bitlen (numeral (Num.Bit1 n)) = bitlen (numeral n) + 1"
  by (subst compute_bitlen) simp

lemma bitlen_One: "bitlen 1 = 1"
  by (subst compute_bitlen) simp

lemma floor_rat_numeral: "\<lfloor>numeral a / numeral b :: rat\<rfloor> = numeral a div numeral b"
  by (metis floor_divide_of_int_eq of_int_numeral)

lemma ceiling_rat_numeral: "\<lceil>numeral a / numeral b :: rat\<rceil> = - (- numeral a div numeral b)"
  by (metis ceiling_def floor_divide_of_int_eq minus_divide_left of_int_minus of_int_numeral)

text \<open>The rules that evaluate \<open>round_double\<close> at a numeral.\<close>

lemmas eval_double = round_double_def floor_log2_def round_half_even_def pow2_def Let_def
  bitlen_Bit0 bitlen_Bit1 bitlen_One floor_rat_numeral ceiling_rat_numeral

lemma round_half_even_of_int: "round_half_even (of_int z) = z"
  by (simp add: round_half_even_def)

lemma round_half_even_nonneg: "0 \<le> r \<Longrightarrow> 0 \<le> round_half_even r"
  by (simp add: round_half_even_def Let_def)

lemma pow2_pos: "0 < pow2 e"
  by (simp add: pow2_def)

lemma round_double_not_NaN: "round_double x \<noteq> NaN"
  by (simp add: round_double_def Let_def)

lemma round_double_nonneg:
  assumes "0 \<le> x"
  shows "js_le (Fin 0) (round_double x)"
proof (cases "x = 0")
  case True
  then show ?thesis by (simp add: round_double_def)
next
  case False
  with assms have x: "0 < x" by simp
  let ?e = "max (floor_log2 \<bar>x\<bar> - 52) (- 1074)"
  have "0 \<le> \<bar>x\<bar> / pow2 ?e"
    using pow2_pos [of ?e] by simp
  then have "0 \<le> round_half_even (\<bar>x\<bar> / pow2 ?e)"
    by (rule round_half_even_nonneg)
  then have "0 \<le> rat_of_int (round_half_even (\<bar>x\<bar> / pow2 ?e)) * pow2 ?e"
    using pow2_pos [of ?e] by simp
  with x show ?thesis
    by (simp add: round_double_def Let_def)
qed

lemma round_double_exact:
  assumes "x \<noteq> 0" and "\<bar>x\<bar> / pow2 (max (floor_log2 \<bar>x\<bar> - 52) (- 1074)) = of_int z"
    and "\<bar>x\<bar> < 2 ^ 1024"
  shows "round_double x = Fin x"
proof -
  let ?e = "max (floor_log2 \<bar>x\<bar> - 52) (- 1074)"
  have p: "pow2 ?e \<noteq> 0"
    using pow2_pos [of ?e] by simp
  have "round_half_even (\<bar>x\<bar> / pow2 ?e) = z"
    by (simp only: assms(2) round_half_even_of_int)
  moreover from assms(2) p have "of_int z * pow2 ?e = \<bar>x\<bar>"
    by (metis nonzero_divide_eq_eq)
  ultimately have "of_int (round_half_even (\<bar>x\<bar> / pow2 ?e)) * pow2 ?e = \<bar>x\<bar>"
    by simp
  moreover have "sgn x * \<bar>x\<bar> = x"
    by (simp add: sgn_mult_abs)
  ultimately show ?thesis
    using assms(1,3) by (simp add: round_double_def Let_def)
qed

lemma floor_log2_of_int:
  assumes "1 \<le> N"
  shows "floor_log2 (of_int N) = bitlen N - 1"
  using assms by (simp add: floor_log2_def)

text \<open>Every integer up to \<open>2 ^ 53\<close> is a double.\<close>

lemma round_double_of_int:
  assumes "\<bar>n\<bar> \<le> 2 ^ 53"
  shows "round_double (of_int n) = Fin (of_int n)"
proof (cases "n = 0")
  case True
  then show ?thesis by (simp add: round_double_def)
next
  case False
  define N where "N = \<bar>n\<bar>"
  define k where "k = bitlen N - 1"
  from False have N: "1 \<le> N" by (simp add: N_def)
  then have b: "2 ^ nat k \<le> N" "N < 2 ^ nat (bitlen N)"
    using bitlen_bounds [of N] by (simp_all add: k_def)
  from N have k0: "0 \<le> k"
    using bitlen_eq_zero_iff [of N] bitlen_nonneg [of N] by (simp add: k_def)
  have k53: "k \<le> 53"
  proof (rule ccontr)
    assume "\<not> k \<le> 53"
    then have "54 \<le> nat k" by simp
    then have "(2::int) ^ 54 \<le> 2 ^ nat k"
      by (intro power_increasing) simp_all
    with b(1) assms show False by (simp add: N_def)
  qed
  have abs: "\<bar>rat_of_int n\<bar> = of_int N"
    by (simp add: N_def)
  have fl: "floor_log2 \<bar>rat_of_int n\<bar> = k"
    using N by (simp add: abs floor_log2_of_int k_def)
  have e: "max (floor_log2 \<bar>rat_of_int n\<bar> - 52) (- 1074) = k - 52"
    using k0 by (simp add: fl)
  have "\<exists>z. \<bar>rat_of_int n\<bar> / pow2 (k - 52) = of_int z"
  proof (cases "k \<le> 52")
    case True
    then have "pow2 (k - 52) = 1 / 2 ^ nat (52 - k)"
      by (auto simp: pow2_def)
    then have "\<bar>rat_of_int n\<bar> / pow2 (k - 52) = of_int (N * 2 ^ nat (52 - k))"
      by (simp add: abs)
    then show ?thesis ..
  next
    case False
    with k53 have k: "k = 53" by simp
    with b(1) assms have "N = 2 ^ 53" by (simp add: N_def)
    with k have "\<bar>rat_of_int n\<bar> / pow2 (k - 52) = of_int (2 ^ 52)"
      by (simp add: abs pow2_def)
    then show ?thesis ..
  qed
  then obtain z where z: "\<bar>rat_of_int n\<bar> / pow2 (max (floor_log2 \<bar>rat_of_int n\<bar> - 52) (- 1074)) = of_int z"
    by (auto simp: e)
  have "of_int N < (2::rat) ^ 1024"
  proof -
    have "N < 2 ^ 1024" using assms by (simp add: N_def)
    then have "rat_of_int N < of_int (2 ^ 1024)" by (simp only: of_int_less_iff)
    then show ?thesis by simp
  qed
  then have lt: "\<bar>rat_of_int n\<bar> < 2 ^ 1024" by (simp add: abs)
  from False have "rat_of_int n \<noteq> 0" by simp
  from round_double_exact [OF this z lt] show ?thesis .
qed

subsection \<open>Sums of doubles\<close>

lemma js_add_commute: "js_add x y = js_add y x"
  by (cases x; cases y) (simp_all add: add.commute)

lemma js_add_zero: "representable m \<Longrightarrow> js_add (Fin 0) m = m"
  by (cases m) (simp_all add: representable_def)

lemma js_add_nonneg:
  assumes "js_le (Fin 0) x" and "js_le (Fin 0) y"
  shows "js_le (Fin 0) (js_add x y)"
  using assms by (cases x; cases y) (simp_all add: round_double_nonneg)

lemma natural_int: "natural m \<longleftrightarrow> (\<exists>j. 0 \<le> j \<and> m = Fin (of_int j))"
proof
  assume "natural m"
  then obtain r where r: "m = Fin r" "0 \<le> r" "rat_of_int \<lfloor>r\<rfloor> = r"
    by (cases m) (auto simp: natural_def)
  from r(2) have "0 \<le> \<lfloor>r\<rfloor>" by simp
  moreover from r(1,3) have "m = Fin (of_int \<lfloor>r\<rfloor>)" by (simp only:)
  ultimately have "0 \<le> \<lfloor>r\<rfloor> \<and> m = Fin (of_int \<lfloor>r\<rfloor>)" ..
  then show "\<exists>j. 0 \<le> j \<and> m = Fin (of_int j)" ..
next
  assume "\<exists>j. 0 \<le> j \<and> m = Fin (of_int j)"
  then show "natural m" by (auto simp: natural_def)
qed

lemma exact_sum_nonneg: "list_all natural ms \<Longrightarrow> 0 \<le> exact_sum ms"
  by (induction ms) (auto simp: exact_sum_def natural_int)

lemma exact_sum_Cons: "exact_sum (m # ms) = rat_of m + exact_sum ms"
  by (simp add: exact_sum_def)

lemma foldl_js_add_exact:
  assumes "list_all natural ms" and "0 \<le> i" and "of_int i + exact_sum ms \<le> 2 ^ 53"
  shows "foldl js_add (Fin (of_int i)) ms = Fin (of_int i + exact_sum ms)"
  using assms
proof (induction ms arbitrary: i)
  case Nil
  then show ?case by (simp add: exact_sum_def)
next
  case (Cons m ms)
  from Cons.prems(1) obtain j where j: "0 \<le> j" "m = Fin (of_int j)"
    by (auto simp: natural_int)
  from Cons.prems(1) have n: "list_all natural ms" by simp
  from exact_sum_nonneg [OF n] Cons.prems(3) j
  have "rat_of_int (i + j) \<le> 2 ^ 53"
    by (simp add: exact_sum_Cons)
  then have "rat_of_int (i + j) \<le> of_int (2 ^ 53)" by simp
  then have "i + j \<le> 2 ^ 53" by (simp only: of_int_le_iff)
  with Cons.prems(2) j(1) have "\<bar>i + j\<bar> \<le> 2 ^ 53" by simp
  then have "round_double (of_int (i + j)) = Fin (of_int (i + j))"
    by (rule round_double_of_int)
  then have s: "js_add (Fin (of_int i)) m = Fin (of_int (i + j))"
    by (simp add: j(2))
  from Cons.prems(2) j(1) have ij: "0 \<le> i + j" by simp
  from Cons.prems(3) have "of_int (i + j) + exact_sum ms \<le> 2 ^ 53"
    by (simp add: exact_sum_Cons j(2) add.assoc)
  from Cons.IH [OF n ij this]
  have "foldl js_add (Fin (of_int (i + j))) ms = Fin (of_int i + exact_sum (m # ms))"
    by (simp add: exact_sum_Cons j(2) add.assoc)
  moreover have "foldl js_add (Fin (of_int i)) (m # ms) = foldl js_add (Fin (of_int (i + j))) ms"
    by (simp only: foldl_Cons s)
  ultimately show ?case by (simp only:)
qed

lemma foldl_js_add_sum:
  assumes "list_all natural ms" and "exact_sum ms \<le> 2 ^ 53"
  shows "foldl js_add (Fin 0) ms = Fin (exact_sum ms)"
  using foldl_js_add_exact [OF assms(1), of 0] assms(2) by simp

lemma round_double_0: "round_double 0 = Fin 0"
  by (simp add: round_double_def)

lemma round_double_1: "round_double 1 = Fin 1"
  using round_double_of_int [of 1] by simp

lemma round_double_numeral:
  "(numeral k :: int) \<le> 2 ^ 53 \<Longrightarrow> round_double (numeral k) = Fin (numeral k)"
  using round_double_of_int [of "numeral k"] by simp

lemma js_le_one_zero: "js_le (Fin 1) m \<Longrightarrow> js_le (Fin 0) m"
  by (cases m) simp_all

lemma js_lt_not_le: "js_lt x y \<Longrightarrow> \<not> js_le y x"
  by (cases x; cases y) simp_all

lemma js_le_not_NaN: "js_le x y \<Longrightarrow> y \<noteq> NaN"
  by (cases x; cases y) simp_all

lemma percentage_castable: "castable (times100 (js_divide sc t)) \<Longrightarrow> castable sc"
  by (cases sc; cases t) (simp_all add: castable_def)

lemma times100_not_NaN: "x \<noteq> NaN \<Longrightarrow> times100 x \<noteq> NaN"
  by (cases x) (simp_all add: round_double_not_NaN)

lemma percentage_not_NaN:
  assumes "sc \<noteq> NaN" and "t \<noteq> 0"
  shows "castable (times100 (js_divide sc (Fin t)))"
proof -
  from assms have "js_divide sc (Fin t) \<noteq> NaN"
    by (cases sc) (simp_all add: round_double_not_NaN)
  then show ?thesis
    unfolding castable_def by (rule times100_not_NaN)
qed

lemma percentage_exact:
  assumes "t \<noteq> 0" and "representable (Fin (s / t))" and "representable (Fin (100 * s / t))"
  shows "times100 (js_divide (Fin s) (Fin t)) = Fin (100 * s / t)"
proof -
  from assms(2) have "round_double (s / t) = Fin (s / t)"
    by (simp add: representable_def)
  with assms(1) have "times100 (js_divide (Fin s) (Fin t)) = round_double (s / t * 100)"
    by simp
  moreover have "s / t * 100 = 100 * s / t"
    by simp
  moreover from assms(3) have "round_double (100 * s / t) = Fin (100 * s / t)"
    by (simp add: representable_def)
  ultimately show ?thesis by (simp only:)
qed

subsection \<open>The handlers on an existing document\<close>

lemma startQuiz_Some:
  "startQuiz (Some q) u now =
     (if now < startDate q \<or> endDate q < now then Inl QuizNotAvailable
      else if find (\<lambda>a. student a = uid u) (attempts q) \<noteq> None then Inl AlreadyAttempted
      else Inr (q\<lparr>attempts := attempts q @ [new_attempt (uid u) now], updatedAt := now,
                  version := version q + 1\<rparr>,
                quizData (q\<lparr>attempts := attempts q @ [new_attempt (uid u) now],
                            updatedAt := now, version := version q + 1\<rparr>)))"
  by (simp add: startQuiz_def Let_def split: option.splits)

lemma submitQuiz_inactive:
  "find (active_for u) (attempts q) = None \<Longrightarrow> submitQuiz (Some q) u body now = Inl NoActiveAttempt"
  by (simp add: submitQuiz_def)

lemma submitQuiz_NoArray:
  "submitQuiz (Some q) u NoArray now =
     (if find (active_for u) (attempts q) = None then Inl NoActiveAttempt else Inl ServerError)"
  by (simp add: submitQuiz_def split: option.splits)

lemma submitQuiz_Answers:
  "submitQuiz (Some q) u (Answers as) now =
     (if find (active_for u) (attempts q) = None then Inl NoActiveAttempt
      else if \<not> (list_all castable_answer as \<and> castable (calculate_score (questions q) as)
                \<and> castable (times100 (js_divide (calculate_score (questions q) as) (totalMarks q))))
        then Inl ServerError
      else Inr (q\<lparr>attempts := update_first (active_for u)
                   (complete_attempt as (calculate_score (questions q) as)
                      (times100 (js_divide (calculate_score (questions q) as) (totalMarks q))) now)
                   (attempts q),
                  updatedAt := now,
                  version :=
                    (if as = [] \<and> answers (the (find (active_for u) (attempts q))) = []
                     then version q else version q + 1)\<rparr>,
                \<lparr> message = ''Quiz submitted successfully'',
                  res_score = calculate_score (questions q) as,
                  res_totalMarks = totalMarks q,
                  res_percentage =
                    times100 (js_divide (calculate_score (questions q) as) (totalMarks q)) \<rparr>))"
  by (simp add: submitQuiz_def Let_def split: option.splits)

lemma submitQuiz_Inr_body:
  assumes "submitQuiz (Some q) u body now = Inr (q', r)"
  obtains as where "body = Answers as"
  using assms by (cases body) (simp_all add: submitQuiz_NoArray split: if_splits)

subsection \<open>The example documents are what the handlers produce\<close>

lemmas example_defs =
  example_quiz_def example_created_def example_student_def example_teacher_def
  example_questions_def example_body_def example_subjects_def right_answers_def
  wrong_answers_def new_attempt_def

text \<open>The rules that evaluate a validation, a score and a percentage on small natural
  numbers.\<close>

lemmas score_defs =
  calculate_score_def score_step_def at_index_def js_eq_def castable_answer_def castable_def
  round_double_0 round_double_1 round_double_numeral

lemmas create_defs =
  createQuiz_def trim_def is_space_def valid_quiz_def valid_question_def sum_marks_def
  castable_def round_double_0 round_double_1 round_double_numeral

lemma createQuiz_example:
  "createQuiz example_subjects example_body example_teacher 50 = Inr example_created"
  by (simp add: create_defs example_defs)

lemma startQuiz_example:
  "startQuiz (Some example_created) example_student 120 = Inr (example_quiz, quizData example_quiz)"
  by (simp add: startQuiz_Some example_defs)

lemma submitQuiz_example:
  "submitQuiz (Some example_quiz) example_student (Answers right_answers) 150 =
     Inr (example_completed,
          \<lparr> message = ''Quiz submitted successfully'', res_score = Fin 8, res_totalMarks = Fin 8,
            res_percentage = Fin 100 \<rparr>)"
  by (simp add: submitQuiz_Answers example_defs example_completed_def active_for_def score_defs)

subsection \<open>Scoring\<close>

lemma score_step_earns:
  "score_step qs sc a = (case earns qs a of None \<Rightarrow> sc | Some m \<Rightarrow> js_add sc m)"
  by (simp add: score_step_def earns_def split: option.splits)

lemma earned_marks_Cons:
  "earned_marks qs (a # as) =
     (case earns qs a of None \<Rightarrow> earned_marks qs as | Some m \<Rightarrow> m # earned_marks qs as)"
  by (simp add: earned_marks_def map_filter_simps split: option.splits)

lemma earned_marks_Nil: "earned_marks qs [] = []"
  by (simp add: earned_marks_def map_filter_simps)

lemma foldl_score_step:
  "foldl (score_step qs) sc as = foldl js_add sc (earned_marks qs as)"
  by (induction as arbitrary: sc)
    (simp_all add: earned_marks_Nil earned_marks_Cons score_step_earns split: option.splits)

lemma calculate_score_earned:
  "calculate_score qs as = foldl js_add (Fin 0) (earned_marks qs as)"
  by (simp add: calculate_score_def foldl_score_step)

lemma calculate_score_exact:
  assumes "list_all natural (earned_marks qs as)" and "exact_sum (earned_marks qs as) \<le> 2 ^ 53"
  shows "calculate_score qs as = Fin (exact_sum (earned_marks qs as))"
  unfolding calculate_score_earned using assms by (rule foldl_js_add_sum)

lemma calculate_score_snoc2:
  assumes "earns qs a = Some m"
  shows "calculate_score qs (as @ [a, a]) = js_add (js_add (calculate_score qs as) m) m"
  using assms by (simp add: calculate_score_def score_step_earns)

lemma score_step_no_question:
  "at_index qs (questionIndex a) = None \<Longrightarrow> score_step qs sc a = sc"
  by (simp add: score_step_def)

lemma at_index_out_of_range:
  "k < 0 \<or> of_nat (length qs) \<le> k \<Longrightarrow> at_index qs (Fin k) = None"
  by (auto simp: at_index_def)

lemma score_step_other_option:
  "at_index qs (questionIndex a) = Some qu \<Longrightarrow> \<not> js_eq (correctAnswer qu) (selectedOption a)
     \<Longrightarrow> score_step qs sc a = sc"
  by (simp add: score_step_def)

lemma at_index_Some_set: "at_index qs k = Some q \<Longrightarrow> q \<in> set qs"
  by (cases k) (auto simp: at_index_def split: if_splits)

lemma earns_Some_marks: "earns qs a = Some m \<Longrightarrow> m \<in> marks ` set qs"
  by (auto simp: earns_def dest: at_index_Some_set split: option.splits if_splits)

lemma earned_marks_subset: "set (earned_marks qs as) \<subseteq> marks ` set qs"
  by (induction as)
    (auto simp: earned_marks_Nil earned_marks_Cons dest: earns_Some_marks split: option.splits)

lemma foldl_js_add_nonneg:
  assumes "list_all (\<lambda>m. js_le (Fin 0) m) ms" and "js_le (Fin 0) sc"
  shows "js_le (Fin 0) (foldl js_add sc ms)"
  using assms by (induction ms arbitrary: sc) (simp_all add: js_add_nonneg)

lemma calculate_score_nonneg:
  assumes "list_all (\<lambda>qu. js_le (Fin 0) (marks qu)) qs"
  shows "js_le (Fin 0) (calculate_score qs as)"
proof -
  from assms earned_marks_subset [of qs as]
  have "list_all (\<lambda>m. js_le (Fin 0) m) (earned_marks qs as)"
    by (auto simp: list_all_iff)
  then show ?thesis
    unfolding calculate_score_earned by (rule foldl_js_add_nonneg) simp
qed

lemma valid_quiz_marks:
  "valid_quiz q \<Longrightarrow> list_all (\<lambda>qu. js_le (Fin 0) (marks qu)) (questions q)"
  by (auto simp: valid_quiz_def valid_question_def list_all_iff js_le_one_zero)

text \<open>With an attempt in progress, answers that are numbers, a document that passes
  its validators and a total that is finite and not zero, the submission succeeds.\<close>

lemma submitQuiz_succeeds:
  assumes "find (active_for u) (attempts q) \<noteq> None" and "list_all castable_answer as"
    and "valid_quiz q" and "totalMarks q = Fin t" and "t \<noteq> 0"
  shows "\<exists>q' r. submitQuiz (Some q) u (Answers as) now = Inr (q', r)"
proof -
  let ?sc = "calculate_score (questions q) as"
  from assms(3) have "js_le (Fin 0) ?sc"
    by (intro calculate_score_nonneg valid_quiz_marks)
  then have sc: "?sc \<noteq> NaN" by (rule js_le_not_NaN)
  from percentage_not_NaN [OF sc assms(5)]
  have "castable (times100 (js_divide ?sc (totalMarks q)))"
    by (simp add: assms(4))
  with sc assms(1,2) show ?thesis
    by (simp add: submitQuiz_Answers castable_def)
qed

lemma submitQuiz_Inr_response:
  assumes "submitQuiz (Some quiz) user (Answers as) now = Inr (quiz', r)"
  shows "res_score r = calculate_score (questions quiz) as"
    and "res_totalMarks r = totalMarks quiz"
    and "res_percentage r = times100 (js_divide (calculate_score (questions quiz) as) (totalMarks quiz))"
  using assms by (auto simp: submitQuiz_Answers split: if_splits)

lemma example_scores:
  assumes "qs = [q0, q1]" "marks q0 = Fin 5" "correctAnswer q0 = Fin 1"
    "marks q1 = Fin 3" "correctAnswer q1 = Fin 0"
  shows "calculate_score qs right_answers = Fin 8"
    and "calculate_score qs wrong_answers = Fin 0"
  using assms by (simp_all add: score_defs right_answers_def wrong_answers_def)

lemma example_submissions:
  assumes "find (active_for user) (attempts quiz) \<noteq> None"
    and "questions quiz = [q0, q1]" "marks q0 = Fin 5" "correctAnswer q0 = Fin 1"
    "marks q1 = Fin 3" "correctAnswer q1 = Fin 0" and "totalMarks quiz = Fin 8"
  shows "\<exists>quiz'. submitQuiz (Some quiz) user (Answers right_answers) now =
             Inr (quiz', \<lparr> message = ''Quiz submitted successfully'', res_score = Fin 8,
                    res_totalMarks = Fin 8, res_percentage = Fin 100 \<rparr>)"
    and "\<exists>quiz'. submitQuiz (Some quiz) user (Answers wrong_answers) now =
             Inr (quiz', \<lparr> message = ''Quiz submitted successfully'', res_score = Fin 0,
                    res_totalMarks = Fin 8, res_percentage = Fin 0 \<rparr>)"
proof -
  note s = example_scores [OF assms(2-6)]
  have c: "list_all castable_answer right_answers" "list_all castable_answer wrong_answers"
    by (simp_all add: right_answers_def wrong_answers_def castable_answer_def castable_def)
  from assms(1,7) c(1) show "\<exists>quiz'. submitQuiz (Some quiz) user (Answers right_answers) now =
             Inr (quiz', \<lparr> message = ''Quiz submitted successfully'', res_score = Fin 8,
                    res_totalMarks = Fin 8, res_percentage = Fin 100 \<rparr>)"
    by (simp add: submitQuiz_Answers s castable_def round_double_1 round_double_numeral)
  from assms(1,7) c(2) show "\<exists>quiz'. submitQuiz (Some quiz) user (Answers wrong_answers) now =
             Inr (quiz', \<lparr> message = ''Quiz submitted successfully'', res_score = Fin 0,
                    res_totalMarks = Fin 8, res_percentage = Fin 0 \<rparr>)"
    by (simp add: submitQuiz_Answers s castable_def round_double_0)
qed

text \<open>
  \<^bold>\<open>C1\<close> (amended). The score \<^verbatim>\<open>submitQuiz\<close> computes is the running sum, in double
  arithmetic and in the order of the answers, of the marks the answers earn: an answer
  earns the marks of \<^verbatim>\<open>quiz.questions[answer.questionIndex]\<close> when that question exists
  and its correct option is the selected one. An answer whose index names no question
  (it is negative or not less than the number of questions), or whose option is not the
  correct one, leaves the running score as it is and raises no error; an answer given
  twice counts twice. When the earned marks are natural numbers and their sum is at most
  \<open>2 ^ 53\<close>, the score is that sum. A successful call answers the score, the total marks
  and the percentage \<^verbatim>\<open>(score / totalMarks) * 100\<close>, in which the quotient is rounded to a
  double before the product is; the percentage is \<open>100 * score / totalMarks\<close> when the
  quotient and its hundredfold are doubles. With an attempt in progress, answers that
  are numbers, a document that passes its validators and a finite positive
  \<open>totalMarks\<close>, the call is successful. For two questions with marks 5 and 3 and
  correct options 1 and 0, the answers \<open>[{0,1},{1,0}]\<close> give score 8 and percentage 100,
  and \<open>[{0,0},{1,1}]\<close> give score 0 and percentage 0.
\<close>

theorem submitQuiz_scoring:
  "calculate_score (questions quiz) as = foldl js_add (Fin 0) (earned_marks (questions quiz) as)
   \<and> (questionIndex a = Fin k \<and> (k < 0 \<or> of_nat (length (questions quiz)) \<le> k) \<longrightarrow>
        score_step (questions quiz) sc a = sc)
   \<and> (at_index (questions quiz) (questionIndex a) = Some qu
        \<and> \<not> js_eq (correctAnswer qu) (selectedOption a) \<longrightarrow>
        score_step (questions quiz) sc a = sc)
   \<and> (earns (questions quiz) b = Some m \<longrightarrow>
        calculate_score (questions quiz) (as @ [b, b])
          = js_add (js_add (calculate_score (questions quiz) as) m) m)
   \<and> (list_all natural (earned_marks (questions quiz) as)
        \<and> exact_sum (earned_marks (questions quiz) as) \<le> 2 ^ 53 \<longrightarrow>
        calculate_score (questions quiz) as = Fin (exact_sum (earned_marks (questions quiz) as)))
   \<and> (submitQuiz (Some quiz) user (Answers as) now = Inr (quiz', r) \<longrightarrow>
        res_score r = calculate_score (questions quiz) as
        \<and> res_totalMarks r = totalMarks quiz
        \<and> res_percentage r = times100 (js_divide (res_score r) (totalMarks quiz))
        \<and> (res_score r = Fin s \<and> totalMarks quiz = Fin t \<and> 0 < t
             \<and> representable (Fin (s / t)) \<and> representable (Fin (100 * s / t)) \<longrightarrow>
             res_percentage r = Fin (100 * s / t)))
   \<and> (find (active_for user) (attempts quiz) \<noteq> None \<and> list_all castable_answer as
        \<and> valid_quiz quiz \<and> totalMarks quiz = Fin t \<and> 0 < t \<longrightarrow>
        (\<exists>quiz' r. submitQuiz (Some quiz) user (Answers as) now = Inr (quiz', r)))
   \<and> (find (active_for user) (attempts quiz) \<noteq> None
        \<and> questions quiz = [q0, q1] \<and> marks q0 = Fin 5 \<and> correctAnswer q0 = Fin 1
        \<and> marks q1 = Fin 3 \<and> correctAnswer q1 = Fin 0 \<and> totalMarks quiz = Fin 8 \<longrightarrow>
          (\<exists>quiz'. submitQuiz (Some quiz) user (Answers right_answers) now =
             Inr (quiz', \<lparr> message = ''Quiz submitted successfully'', res_score = Fin 8,
                    res_totalMarks = Fin 8, res_percentage = Fin 100 \<rparr>))
        \<and> (\<exists>quiz'. submitQuiz (Some quiz) user (Answers wrong_answers) now =
             Inr (quiz', \<lparr> message = ''Quiz submitted successfully'', res_score = Fin 0,
                    res_totalMarks = Fin 8, res_percentage = Fin 0 \<rparr>)))"
proof (intro conjI impI)
  show "calculate_score (questions quiz) as = foldl js_add (Fin 0) (earned_marks (questions quiz) as)"
    by (rule calculate_score_earned)
  show "score_step (questions quiz) sc a = sc"
    if "questionIndex a = Fin k \<and> (k < 0 \<or> of_nat (length (questions quiz)) \<le> k)"
    using that by (simp add: score_step_no_question at_index_out_of_range)
  show "score_step (questions quiz) sc a = sc"
    if "at_index (questions quiz) (questionIndex a) = Some qu
        \<and> \<not> js_eq (correctAnswer qu) (selectedOption a)"
    using that by (simp add: score_step_other_option)
  show "calculate_score (questions quiz) (as @ [b, b])
          = js_add (js_add (calculate_score (questions quiz) as) m) m"
    if "earns (questions quiz) b = Some m"
    using that by (rule calculate_score_snoc2)
  show "calculate_score (questions quiz) as = Fin (exact_sum (earned_marks (questions quiz) as))"
    if "list_all natural (earned_marks (questions quiz) as)
        \<and> exact_sum (earned_marks (questions quiz) as) \<le> 2 ^ 53"
    using that by (simp add: calculate_score_exact)
next
  assume s: "submitQuiz (Some quiz) user (Answers as) now = Inr (quiz', r)"
  note resp = submitQuiz_Inr_response [OF s]
  show "res_score r = calculate_score (questions quiz) as"
    by (rule resp(1))
  show "res_totalMarks r = totalMarks quiz"
    by (rule resp(2))
  show p: "res_percentage r = times100 (js_divide (res_score r) (totalMarks quiz))"
    by (simp only: resp(1,3))
  assume e: "res_score r = Fin s \<and> totalMarks quiz = Fin t \<and> 0 < t
             \<and> representable (Fin (s / t)) \<and> representable (Fin (100 * s / t))"
  then have "times100 (js_divide (Fin s) (Fin t)) = Fin (100 * s / t)"
    by (intro percentage_exact) simp_all
  with p e show "res_percentage r = Fin (100 * s / t)"
    by simp
next
  assume "find (active_for user) (attempts quiz) \<noteq> None \<and> list_all castable_answer as
        \<and> valid_quiz quiz \<and> totalMarks quiz = Fin t \<and> 0 < t"
  then show "\<exists>quiz' r. submitQuiz (Some quiz) user (Answers as) now = Inr (quiz', r)"
    by (intro submitQuiz_succeeds [where t = t]) simp_all
next
  assume ex: "find (active_for user) (attempts quiz) \<noteq> None
        \<and> questions quiz = [q0, q1] \<and> marks q0 = Fin 5 \<and> correctAnswer q0 = Fin 1
        \<and> marks q1 = Fin 3 \<and> correctAnswer q1 = Fin 0 \<and> totalMarks quiz = Fin 8"
  then show "\<exists>quiz'. submitQuiz (Some quiz) user (Answers right_answers) now =
             Inr (quiz', \<lparr> message = ''Quiz submitted successfully'', res_score = Fin 8,
                    res_totalMarks = Fin 8, res_percentage = Fin 100 \<rparr>)"
    by (intro example_submissions(1) [where ?q0.0 = q0 and ?q1.0 = q1]) simp_all
  from ex show "\<exists>quiz'. submitQuiz (Some quiz) user (Answers wrong_answers) now =
             Inr (quiz', \<lparr> message = ''Quiz submitted successfully'', res_score = Fin 0,
                    res_totalMarks = Fin 8, res_percentage = Fin 0 \<rparr>)"
    by (intro example_submissions(2) [where ?q0.0 = q0 and ?q1.0 = q1]) simp_all
qed

lemma createQuiz_percent:
  "createQuiz example_subjects percent_body example_teacher 50 = Inr percent_created"
  by (simp add: create_defs percent_body_def percent_created_def percent_questions_def example_defs)

lemma percent_of_seven:
  "times100 (js_divide (Fin 7) (Fin 100)) = Fin (7881299347898369 / 1125899906842624)"
  by (simp add: eval_double)

lemma submitQuiz_percent:
  "submitQuiz (Some percent_quiz) example_student (Answers first_answer) 150 =
     Inr (percent_quiz\<lparr>attempts :=
            [complete_attempt first_answer (Fin 7) (Fin (7881299347898369 / 1125899906842624)) 150
               (new_attempt 7 120)],
            updatedAt := 150, version := 2\<rparr>,
          \<lparr> message = ''Quiz submitted successfully'', res_score = Fin 7,
            res_totalMarks = Fin 100,
            res_percentage = Fin (7881299347898369 / 1125899906842624) \<rparr>)"
proof -
  have s: "calculate_score (questions percent_quiz) first_answer = Fin 7"
    by (simp add: score_defs percent_quiz_def percent_created_def percent_questions_def
        first_answer_def)
  have t: "totalMarks percent_quiz = Fin 100"
    by (simp add: percent_quiz_def percent_created_def)
  show ?thesis
    unfolding submitQuiz_Answers s t percent_of_seven
    by (simp add: percent_quiz_def percent_created_def example_defs active_for_def
        first_answer_def castable_answer_def castable_def)
qed

text \<open>\<^bold>\<open>C1\<close> as stated has the percentage be \<open>100 * score / totalMarks\<close>. \<^verbatim>\<open>createQuiz\<close>
  persists a quiz of 100 marks whose first question is worth 7. For the right answer
  to that question alone the score is 7, and the percentage the handler answers is not
  7 but the double next above it, \<^verbatim>\<open>7.000000000000001\<close>: the quotient \<^verbatim>\<open>7 / 100\<close> is
  rounded before it is multiplied. The formula of the claim gives 7, on the rationals
  and on doubles.\<close>

theorem submitQuiz_scoring_counterexample:
  "createQuiz example_subjects percent_body example_teacher 50 = Inr percent_created
   \<and> startQuiz (Some percent_created) example_student 120 = Inr (percent_quiz, quizData percent_quiz)
   \<and> submitQuiz (Some percent_quiz) example_student (Answers first_answer) 150 =
       Inr (percent_quiz\<lparr>attempts :=
              [complete_attempt first_answer (Fin 7) (Fin (7881299347898369 / 1125899906842624)) 150
                 (new_attempt 7 120)],
              updatedAt := 150, version := 2\<rparr>,
            \<lparr> message = ''Quiz submitted successfully'', res_score = Fin 7,
              res_totalMarks = Fin 100,
              res_percentage = Fin (7881299347898369 / 1125899906842624) \<rparr>)
   \<and> Fin (7881299347898369 / 1125899906842624) \<noteq> Fin (100 * 7 / 100)
   \<and> percentage_as_specified (Fin 7) (Fin 100) = Fin 7"
proof (intro conjI)
  show "createQuiz example_subjects percent_body example_teacher 50 = Inr percent_created"
    by (rule createQuiz_percent)
  show "startQuiz (Some percent_created) example_student 120 = Inr (percent_quiz, quizData percent_quiz)"
    by (simp add: startQuiz_Some percent_quiz_def percent_created_def example_defs)
  show "submitQuiz (Some percent_quiz) example_student (Answers first_answer) 150 =
       Inr (percent_quiz\<lparr>attempts :=
              [complete_attempt first_answer (Fin 7) (Fin (7881299347898369 / 1125899906842624)) 150
                 (new_attempt 7 120)],
              updatedAt := 150, version := 2\<rparr>,
            \<lparr> message = ''Quiz submitted successfully'', res_score = Fin 7,
              res_totalMarks = Fin 100,
              res_percentage = Fin (7881299347898369 / 1125899906842624) \<rparr>)"
    by (rule submitQuiz_percent)
  show "Fin (7881299347898369 / 1125899906842624) \<noteq> Fin (100 * 7 / 100)"
    by simp
  show "percentage_as_specified (Fin 7) (Fin 100) = Fin 7"
    by (simp add: percentage_as_specified_def round_double_numeral)
qed

lemma submitQuiz_repeated:
  "submitQuiz (Some example_quiz) example_student (Answers repeated_answers) 150 =
     Inr (example_quiz\<lparr>attempts :=
            [complete_attempt repeated_answers (Fin 10) (Fin 125) 150 (new_attempt 7 120)],
            updatedAt := 150, version := 2\<rparr>,
          \<lparr> message = ''Quiz submitted successfully'', res_score = Fin 10,
            res_totalMarks = Fin 8, res_percentage = Fin 125 \<rparr>)"
proof -
  have s: "calculate_score (questions example_quiz) repeated_answers = Fin 10"
    by (simp add: score_defs example_defs repeated_answers_def)
  have t: "totalMarks example_quiz = Fin 8"
    by (simp add: example_defs)
  have p: "times100 (js_divide (Fin 10) (Fin 8)) = Fin 125"
    by (simp add: eval_double)
  show ?thesis
    unfolding submitQuiz_Answers s t p
    by (simp add: example_defs active_for_def repeated_answers_def castable_answer_def
        castable_def)
qed

text \<open>The theorem at the example quiz, with a repeated answer and two answers whose
  question index is out of range, and with the two answer lists of the claim.\<close>

theorem submitQuiz_scoring_witness:
  "earned_marks (questions example_quiz) repeated_answers = [Fin 5, Fin 5]
   \<and> calculate_score (questions example_quiz) repeated_answers = Fin 10
   \<and> score_step (questions example_quiz) (Fin 5) \<lparr>questionIndex = Fin 5, selectedOption = Fin 0\<rparr> = Fin 5
   \<and> score_step (questions example_quiz) (Fin 5) \<lparr>questionIndex = Fin (- 1), selectedOption = Fin 1\<rparr> = Fin 5
   \<and> score_step (questions example_quiz) (Fin 5) \<lparr>questionIndex = Fin 0, selectedOption = Fin 0\<rparr> = Fin 5
   \<and> earns (questions example_quiz) \<lparr>questionIndex = Fin 0, selectedOption = Fin 1\<rparr> = Some (Fin 5)
   \<and> calculate_score (questions example_quiz)
        (wrong_answers @ [\<lparr>questionIndex = Fin 0, selectedOption = Fin 1\<rparr>,
                          \<lparr>questionIndex = Fin 0, selectedOption = Fin 1\<rparr>]) = Fin 10
   \<and> find (active_for example_student) (attempts example_quiz) \<noteq> None
   \<and> list_all castable_answer repeated_answers
   \<and> valid_quiz example_quiz
   \<and> totalMarks example_quiz = Fin 8
   \<and> representable (Fin (10 / 8)) \<and> representable (Fin (100 * 10 / 8))
   \<and> (\<exists>quiz' r. submitQuiz (Some example_quiz) example_student (Answers repeated_answers) 150
        = Inr (quiz', r))
   \<and> (\<exists>quiz'. submitQuiz (Some example_quiz) example_student (Answers repeated_answers) 150 =
        Inr (quiz', \<lparr> message = ''Quiz submitted successfully'', res_score = Fin 10,
               res_totalMarks = Fin 8, res_percentage = Fin (100 * 10 / 8) \<rparr>))
   \<and> (\<exists>quiz'. submitQuiz (Some example_quiz) example_student (Answers right_answers) 150 =
        Inr (quiz', \<lparr> message = ''Quiz submitted successfully'', res_score = Fin 8,
               res_totalMarks = Fin 8, res_percentage = Fin 100 \<rparr>))
   \<and> (\<exists>quiz'. submitQuiz (Some example_quiz) example_student (Answers wrong_answers) 150 =
        Inr (quiz', \<lparr> message = ''Quiz submitted successfully'', res_score = Fin 0,
               res_totalMarks = Fin 8, res_percentage = Fin 0 \<rparr>))"
proof -
  let ?qs = "questions example_quiz"
  let ?b = "\<lparr>questionIndex = Fin 0, selectedOption = Fin 1\<rparr>"
  let ?quiz' = "example_quiz\<lparr>attempts :=
            [complete_attempt repeated_answers (Fin 10) (Fin 125) 150 (new_attempt 7 120)],
            updatedAt := 150, version := 2\<rparr>"
  let ?r = "\<lparr> message = ''Quiz submitted successfully'', res_score = Fin 10,
            res_totalMarks = Fin 8, res_percentage = Fin 125 \<rparr>"
  have q: "?qs =
       [\<lparr> question_id = 11, questionText = ''Q1'', options = [''a'', ''b''], correctAnswer = Fin 1, marks = Fin 5 \<rparr>,
        \<lparr> question_id = 12, questionText = ''Q2'', options = [''a'', ''b''], correctAnswer = Fin 0, marks = Fin 3 \<rparr>]"
    by (simp add: example_defs)
  have em: "earned_marks ?qs repeated_answers = [Fin 5, Fin 5]"
    by (simp add: q earned_marks_def map_filter_simps earns_def at_index_def js_eq_def
        repeated_answers_def)
  have nat: "list_all natural (earned_marks ?qs repeated_answers)"
    "exact_sum (earned_marks ?qs repeated_answers) \<le> 2 ^ 53"
    "exact_sum (earned_marks ?qs repeated_answers) = 10"
    by (simp_all add: em natural_def exact_sum_def)
  have a: "find (active_for example_student) (attempts example_quiz) \<noteq> None"
    by (simp add: example_defs active_for_def)
  have c: "list_all castable_answer repeated_answers"
    by (simp add: repeated_answers_def castable_answer_def castable_def)
  have v: "valid_quiz example_quiz"
    by (simp add: example_defs valid_quiz_def valid_question_def castable_def)
  have t: "totalMarks example_quiz = Fin 8"
    by (simp add: example_defs)
  have rep: "representable (Fin (10 / 8))" "representable (Fin (100 * 10 / 8))"
    by (simp_all add: representable_def eval_double)
  have e: "earns ?qs ?b = Some (Fin 5)"
    by (simp add: q earns_def at_index_def js_eq_def)
  have o: "at_index ?qs (questionIndex \<lparr>questionIndex = Fin 0, selectedOption = Fin 0\<rparr>)
        = Some \<lparr> question_id = 11, questionText = ''Q1'', options = [''a'', ''b''], correctAnswer = Fin 1, marks = Fin 5 \<rparr>"
    by (simp add: q at_index_def)
  have w: "calculate_score ?qs wrong_answers = Fin 0"
    by (simp add: q score_defs wrong_answers_def)
  let ?q0 = "\<lparr> question_id = 11, questionText = ''Q1'', options = [''a'', ''b''], correctAnswer = Fin 1, marks = Fin 5 \<rparr>"
  let ?q1 = "\<lparr> question_id = 12, questionText = ''Q2'', options = [''a'', ''b''], correctAnswer = Fin 0, marks = Fin 3 \<rparr>"
  let ?a5 = "\<lparr>questionIndex = Fin 5, selectedOption = Fin 0\<rparr>"
  let ?am = "\<lparr>questionIndex = Fin (- 1), selectedOption = Fin 1\<rparr>"
  let ?a0 = "\<lparr>questionIndex = Fin 0, selectedOption = Fin 0\<rparr>"
  note inst = submitQuiz_scoring [where quiz = example_quiz and user = example_student
        and as = repeated_answers and now = 150 and quiz' = ?quiz' and r = ?r
        and a = ?a5 and k = 5 and sc = "Fin 5" and s = 10 and t = 8 and ?q0.0 = ?q0 and ?q1.0 = ?q1
        and qu = ?q0 and b = ?b and m = "Fin 5"]
  note inst2 = submitQuiz_scoring [where quiz = example_quiz and user = example_student
        and as = wrong_answers and now = 150 and quiz' = ?quiz' and r = ?r
        and a = ?am and k = "- 1" and sc = "Fin 5" and s = 10 and t = 8 and ?q0.0 = ?q0 and ?q1.0 = ?q1
        and qu = ?q0 and b = ?b and m = "Fin 5"]
  note inst3 = submitQuiz_scoring [where quiz = example_quiz and user = example_student
        and as = wrong_answers and now = 150 and quiz' = ?quiz' and r = ?r
        and a = ?a0 and k = 0 and sc = "Fin 5" and s = 10 and t = 8 and ?q0.0 = ?q0 and ?q1.0 = ?q1
        and qu = ?q0 and b = ?b and m = "Fin 5"]
  from inst nat(1,2)
  have "calculate_score ?qs repeated_answers = Fin (exact_sum (earned_marks ?qs repeated_answers))"
    by blast
  then have c1: "calculate_score ?qs repeated_answers = Fin 10"
    by (simp only: nat(3))
  have "questionIndex ?a5 = Fin 5 \<and> ((5::rat) < 0 \<or> of_nat (length ?qs) \<le> (5::rat))"
    by (simp add: q)
  with inst have c2: "score_step ?qs (Fin 5) ?a5 = Fin 5"
    by blast
  have "questionIndex ?am = Fin (- 1) \<and> ((- 1::rat) < 0 \<or> of_nat (length ?qs) \<le> (- 1::rat))"
    by simp
  with inst2 have c3: "score_step ?qs (Fin 5) ?am = Fin 5"
    by blast
  have "at_index ?qs (questionIndex ?a0) = Some ?q0 \<and> \<not> js_eq (correctAnswer ?q0) (selectedOption ?a0)"
    by (simp add: q at_index_def js_eq_def)
  with inst3 have c4: "score_step ?qs (Fin 5) ?a0 = Fin 5"
    by blast
  from inst2 e have "calculate_score ?qs (wrong_answers @ [?b, ?b])
      = js_add (js_add (calculate_score ?qs wrong_answers) (Fin 5)) (Fin 5)"
    by blast
  then have c5: "calculate_score ?qs (wrong_answers @ [?b, ?b]) = Fin 10"
    by (simp add: w round_double_numeral)
  have "res_score ?r = Fin 10 \<and> totalMarks example_quiz = Fin 8 \<and> (0::rat) < 8
      \<and> representable (Fin (10 / 8)) \<and> representable (Fin (100 * 10 / 8))"
    using t rep by simp
  with inst submitQuiz_repeated have "res_percentage ?r = Fin (100 * 10 / 8)"
    by blast
  with submitQuiz_repeated
  have c6: "\<exists>quiz'. submitQuiz (Some example_quiz) example_student (Answers repeated_answers) 150 =
        Inr (quiz', \<lparr> message = ''Quiz submitted successfully'', res_score = Fin 10,
               res_totalMarks = Fin 8, res_percentage = Fin (100 * 10 / 8) \<rparr>)"
    by simp
  have "find (active_for example_student) (attempts example_quiz) \<noteq> None
      \<and> list_all castable_answer repeated_answers \<and> valid_quiz example_quiz
      \<and> totalMarks example_quiz = Fin 8 \<and> (0::rat) < 8"
    using a c v t by simp
  with inst
  have c9: "\<exists>quiz' r. submitQuiz (Some example_quiz) example_student (Answers repeated_answers) 150
      = Inr (quiz', r)"
    by blast
  have "find (active_for example_student) (attempts example_quiz) \<noteq> None
        \<and> questions example_quiz = [?q0, ?q1] \<and> marks ?q0 = Fin 5 \<and> correctAnswer ?q0 = Fin 1
        \<and> marks ?q1 = Fin 3 \<and> correctAnswer ?q1 = Fin 0 \<and> totalMarks example_quiz = Fin 8"
    using a q t by simp
  with inst
  have c7: "\<exists>quiz'. submitQuiz (Some example_quiz) example_student (Answers right_answers) 150 =
        Inr (quiz', \<lparr> message = ''Quiz submitted successfully'', res_score = Fin 8,
               res_totalMarks = Fin 8, res_percentage = Fin 100 \<rparr>)"
    and c8: "\<exists>quiz'. submitQuiz (Some example_quiz) example_student (Answers wrong_answers) 150 =
        Inr (quiz', \<lparr> message = ''Quiz submitted successfully'', res_score = Fin 0,
               res_totalMarks = Fin 8, res_percentage = Fin 0 \<rparr>)"
    by blast+
  show ?thesis
    by (intro conjI em c1 c2 c3 c4 e c5 a c c9 c6 c7 c8 v t rep)
qed

subsection \<open>One attempt per student\<close>

lemma map_update_first:
  "(\<And>x. g (f x) = g x) \<Longrightarrow> map g (update_first P f xs) = map g xs"
  by (induction xs) simp_all

lemma student_complete_attempt:
  "student (complete_attempt as sc pc now a) = student a"
  by (simp add: complete_attempt_def)

lemma submitQuiz_students:
  assumes "submitQuiz (Some q) u body now = Inr (q', r)"
  shows "map student (attempts q') = map student (attempts q)"
proof -
  from assms obtain as where "body = Answers as"
    by (rule submitQuiz_Inr_body)
  with assms show ?thesis
    by (auto simp: submitQuiz_Answers map_update_first student_complete_attempt split: if_splits)
qed

lemma startQuiz_students:
  assumes "startQuiz (Some q) u now = Inr (q', d)"
  shows "map student (attempts q') = map student (attempts q) @ [uid u]"
    and "uid u \<notin> set (map student (attempts q))"
  using assms by (auto simp: startQuiz_Some new_attempt_def find_None_iff split: if_splits)

lemma handle_unique: "attempts_unique q \<Longrightarrow> attempts_unique (handle q r)"
proof (cases r)
  case (Start u now)
  assume uq: "attempts_unique q"
  show ?thesis
  proof (cases "startQuiz (Some q) u now")
    case (Inl e)
    with Start uq show ?thesis by simp
  next
    case (Inr p)
    obtain q' d where p: "p = (q', d)" by (cases p)
    from startQuiz_students [OF Inr [unfolded p]] uq Start Inr p
    show ?thesis by (simp add: attempts_unique_def)
  qed
next
  case (Submit u body now)
  assume uq: "attempts_unique q"
  show ?thesis
  proof (cases "submitQuiz (Some q) u body now")
    case (Inl e)
    with Submit uq show ?thesis by simp
  next
    case (Inr p)
    obtain q' d where p: "p = (q', d)" by (cases p)
    from submitQuiz_students [OF Inr [unfolded p]] uq Submit Inr p
    show ?thesis by (simp add: attempts_unique_def)
  qed
qed

lemma handle_students: "set (map student (attempts q)) \<subseteq> set (map student (attempts (handle q r)))"
proof (cases r)
  case (Start u now)
  show ?thesis
  proof (cases "startQuiz (Some q) u now")
    case (Inl e)
    with Start show ?thesis by simp
  next
    case (Inr p)
    obtain q' d where p: "p = (q', d)" by (cases p)
    from startQuiz_students(1) [OF Inr [unfolded p]] Start Inr p
    show ?thesis by auto
  qed
next
  case (Submit u body now)
  show ?thesis
  proof (cases "submitQuiz (Some q) u body now")
    case (Inl e)
    with Submit show ?thesis by simp
  next
    case (Inr p)
    obtain q' d where p: "p = (q', d)" by (cases p)
    from submitQuiz_students [OF Inr [unfolded p]] Submit Inr p
    show ?thesis by simp
  qed
qed

lemma foldl_handle_unique: "attempts_unique q \<Longrightarrow> attempts_unique (foldl handle q rs)"
  by (induction rs arbitrary: q) (simp_all add: handle_unique)

lemma foldl_handle_students:
  "set (map student (attempts q)) \<subseteq> set (map student (attempts (foldl handle q rs)))"
proof (induction rs arbitrary: q)
  case Nil
  show ?case by simp
next
  case (Cons r rs)
  have "set (map student (attempts q)) \<subseteq> set (map student (attempts (handle q r)))"
    by (rule handle_students)
  also have "\<dots> \<subseteq> set (map student (attempts (foldl handle (handle q r) rs)))"
    by (rule Cons.IH)
  finally show ?case by simp
qed

lemma createQuiz_attempts:
  "createQuiz subjects body t now = Inr q \<Longrightarrow> attempts q = []"
  by (auto simp: createQuiz_def Let_def split: option.splits if_splits)

lemma startQuiz_attempted:
  assumes "uid u \<in> set (map student (attempts q))"
  shows "startQuiz (Some q) u now =
           Inl (if now < startDate q \<or> endDate q < now then QuizNotAvailable else AlreadyAttempted)"
proof -
  from assms have "find (\<lambda>a. student a = uid u) (attempts q) \<noteq> None"
    by (auto simp: find_None_iff)
  then show ?thesis by (simp add: startQuiz_Some)
qed

text \<open>
  \<^bold>\<open>C2\<close> (amended). Start and submit requests on one quiz document that are handled one
  after the other keep at most one attempt per student in \<^verbatim>\<open>attempts\<close>: from any
  document that has the property, and so from the document \<^verbatim>\<open>createQuiz\<close> persists,
  whose list is empty. When the student already has an attempt, whatever its status,
  \<^verbatim>\<open>startQuiz\<close> does not succeed and the document stays as it is: the answer is
  \<open>QuizNotAvailable\<close> when the clock is outside the window, which is checked first, and
  \<open>AlreadyAttempted\<close> otherwise; and \<^verbatim>\<open>startQuiz\<close> keeps failing for that student after any
  further requests. \<^verbatim>\<open>submitQuiz\<close> creates no attempt: the students of the attempts are
  the same list before and after.
\<close>

theorem one_attempt_per_student:
  "(attempts_unique q \<longrightarrow> attempts_unique (foldl handle q rs))
   \<and> (createQuiz subjects body t now0 = Inr q \<longrightarrow> attempts_unique (foldl handle q rs))
   \<and> (uid u \<in> set (map student (attempts q)) \<longrightarrow>
        startQuiz (Some q) u now =
          Inl (if now < startDate q \<or> endDate q < now then QuizNotAvailable else AlreadyAttempted)
        \<and> handle q (Start u now) = q
        \<and> isl (startQuiz (Some (foldl handle q rs)) u now))
   \<and> (submitQuiz (Some q) u sent now = Inr (q', r) \<longrightarrow>
        map student (attempts q') = map student (attempts q))"
proof (intro conjI impI)
  show "attempts_unique (foldl handle q rs)" if "attempts_unique q"
    using that by (rule foldl_handle_unique)
  show "attempts_unique (foldl handle q rs)" if "createQuiz subjects body t now0 = Inr q"
  proof -
    from that have "attempts q = []" by (rule createQuiz_attempts)
    then have "attempts_unique q" by (simp add: attempts_unique_def)
    then show ?thesis by (rule foldl_handle_unique)
  qed
  show "map student (attempts q') = map student (attempts q)"
    if "submitQuiz (Some q) u sent now = Inr (q', r)"
    using that by (rule submitQuiz_students)
next
  assume a: "uid u \<in> set (map student (attempts q))"
  show s: "startQuiz (Some q) u now =
          Inl (if now < startDate q \<or> endDate q < now then QuizNotAvailable else AlreadyAttempted)"
    using a by (rule startQuiz_attempted)
  show "handle q (Start u now) = q" by (simp add: s)
  from a foldl_handle_students [of q rs]
  have "uid u \<in> set (map student (attempts (foldl handle q rs)))" by blast
  from startQuiz_attempted [OF this] show "isl (startQuiz (Some (foldl handle q rs)) u now)"
    by simp
qed

text \<open>\<^bold>\<open>C2\<close> as stated has \<^verbatim>\<open>startQuiz\<close> answer \<open>AlreadyAttempted\<close> whenever an
  attempt exists. At the example quiz, once its window has closed, the answer is
  \<open>QuizNotAvailable\<close>.\<close>

theorem one_attempt_per_student_counterexample:
  "find (\<lambda>a. student a = uid example_student) (attempts example_quiz) = Some (new_attempt 7 120)
   \<and> startQuiz (Some example_quiz) example_student 300 = Inl QuizNotAvailable"
  by (simp add: startQuiz_Some example_quiz_def example_created_def example_student_def new_attempt_def)

text \<open>The theorem at the example quiz and a start, a submission and a second start of
  its student.\<close>

theorem one_attempt_per_student_witness:
  "attempts_unique example_quiz
   \<and> attempts_unique (foldl handle example_quiz example_requests)
   \<and> createQuiz example_subjects example_body example_teacher 50 = Inr example_created
   \<and> attempts_unique (foldl handle example_created example_requests)
   \<and> uid example_student \<in> set (map student (attempts example_quiz))
   \<and> startQuiz (Some example_quiz) example_student 130 = Inl AlreadyAttempted
   \<and> handle example_quiz (Start example_student 130) = example_quiz
   \<and> isl (startQuiz (Some (foldl handle example_quiz example_requests)) example_student 130)
   \<and> submitQuiz (Some example_quiz) example_student (Answers right_answers) 150 =
        Inr (example_completed,
          \<lparr> message = ''Quiz submitted successfully'', res_score = Fin 8, res_totalMarks = Fin 8,
            res_percentage = Fin 100 \<rparr>)
   \<and> map student (attempts example_completed) = map student (attempts example_quiz)"
proof -
  have u: "attempts_unique example_quiz"
    by (simp add: attempts_unique_def example_defs)
  have m: "uid example_student \<in> set (map student (attempts example_quiz))"
    by (simp add: example_defs)
  have w: "\<not> (130 < startDate example_quiz \<or> endDate example_quiz < 130)"
    by (simp add: example_defs)
  from one_attempt_per_student [where q = example_quiz and rs = example_requests
      and subjects = example_subjects and body = example_body and t = example_teacher
      and ?now0.0 = 50 and u = example_student and now = 130]
    one_attempt_per_student [where q = example_created and rs = example_requests
      and subjects = example_subjects and body = example_body and t = example_teacher
      and ?now0.0 = 50]
    one_attempt_per_student [where q = example_quiz and u = example_student
      and sent = "Answers right_answers" and now = 150 and q' = example_completed]
    u m w createQuiz_example submitQuiz_example
  show ?thesis by simp
qed

subsection \<open>When submitQuiz succeeds\<close>

lemma find_active_None:
  "find (active_for u) xs = None \<longleftrightarrow> \<not> (\<exists>a\<in>set xs. student a = uid u \<and> status a = InProgress)"
  by (auto simp: find_None_iff active_for_def)

lemma submitQuiz_NoActiveAttempt:
  "submitQuiz (Some q) u body now = Inl NoActiveAttempt \<longleftrightarrow> find (active_for u) (attempts q) = None"
  by (cases body) (simp_all add: submitQuiz_NoArray submitQuiz_Answers)

lemma complete_attempt_inactive:
  "\<not> active_for u (complete_attempt as sc pc now a)"
  by (simp add: active_for_def complete_attempt_def)

lemma update_first_no_active:
  assumes "distinct (map student xs)"
  shows "find (active_for u) (update_first (active_for u) (complete_attempt as sc pc now) xs) = None"
  using assms
proof (induction xs)
  case Nil
  show ?case by simp
next
  case (Cons x xs)
  show ?case
  proof (cases "active_for u x")
    case True
    with Cons.prems have "uid u \<notin> student ` set xs"
      by (simp add: active_for_def)
    then have "find (active_for u) xs = None"
      by (force simp: find_None_iff active_for_def)
    with True show ?thesis by (simp add: complete_attempt_inactive)
  next
    case False
    with Cons show ?thesis by simp
  qed
qed

lemma submitQuiz_twice:
  assumes "attempts_unique q" and "submitQuiz (Some q) u body now = Inr (q', r)"
  shows "submitQuiz (Some q') u body' now' = Inl NoActiveAttempt"
proof -
  from assms(2) obtain as where "body = Answers as"
    by (rule submitQuiz_Inr_body)
  with assms(2) obtain sc pc where
    "attempts q' = update_first (active_for u) (complete_attempt as sc pc now) (attempts q)"
    by (auto simp: submitQuiz_Answers split: if_splits)
  with assms(1) have "find (active_for u) (attempts q') = None"
    by (simp add: update_first_no_active attempts_unique_def)
  then show ?thesis by (rule submitQuiz_inactive)
qed

lemma submitQuiz_response_time:
  "map_sum id snd (submitQuiz (Some (q\<lparr>startDate := s, endDate := e\<rparr>)) u body now')
     = map_sum id snd (submitQuiz (Some q) u body now)"
  by (cases body) (simp_all add: submitQuiz_NoArray submitQuiz_Answers)

lemma submitQuiz_response_duration:
  "map_sum id snd (submitQuiz (Some (q\<lparr>duration := d\<rparr>)) u body now)
     = map_sum id snd (submitQuiz (Some q) u body now)"
  by (cases body) (simp_all add: submitQuiz_NoArray submitQuiz_Answers)

text \<open>
  \<^bold>\<open>C3\<close> (amended). On an existing quiz, \<^verbatim>\<open>submitQuiz\<close> answers \<open>NoActiveAttempt\<close> exactly
  when the student has no in-progress attempt, whatever the body. On a document with at
  most one attempt per student, any submission that follows a successful one answers
  \<open>NoActiveAttempt\<close>. When the student has an in-progress attempt, the answers of the
  body are an array of numbers, the document passes its validators and \<open>totalMarks\<close> is
  finite and not zero, \<^verbatim>\<open>submitQuiz\<close> succeeds, at every clock value. The answer depends
  neither on the clock nor on the \<open>startDate\<close> and the \<open>endDate\<close> of the quiz, nor on
  which valid \<open>duration\<close> it has: a late submission is answered as an on-time one.
\<close>

theorem submitQuiz_active_attempt:
  "(submitQuiz (Some q) u body now = Inl NoActiveAttempt \<longleftrightarrow>
      \<not> (\<exists>a\<in>set (attempts q). student a = uid u \<and> status a = InProgress))
   \<and> (attempts_unique q \<and> submitQuiz (Some q) u body now = Inr (q', r) \<longrightarrow>
        submitQuiz (Some q') u body' now' = Inl NoActiveAttempt)
   \<and> ((\<exists>a\<in>set (attempts q). student a = uid u \<and> status a = InProgress)
        \<and> list_all castable_answer as \<and> valid_quiz q \<and> totalMarks q = Fin t \<and> t \<noteq> 0 \<longrightarrow>
        (\<exists>q'' r''. submitQuiz (Some q) u (Answers as) now = Inr (q'', r'')))
   \<and> map_sum id snd (submitQuiz (Some (q\<lparr>startDate := s, endDate := e\<rparr>)) u body now')
        = map_sum id snd (submitQuiz (Some q) u body now)
   \<and> (js_le (Fin 1) (duration q) \<and> js_le (Fin 1) d \<longrightarrow>
        map_sum id snd (submitQuiz (Some (q\<lparr>duration := d\<rparr>)) u body now)
          = map_sum id snd (submitQuiz (Some q) u body now))"
proof (intro conjI impI)
  show "submitQuiz (Some q) u body now = Inl NoActiveAttempt \<longleftrightarrow>
      \<not> (\<exists>a\<in>set (attempts q). student a = uid u \<and> status a = InProgress)"
    by (simp only: submitQuiz_NoActiveAttempt find_active_None)
  show "submitQuiz (Some q') u body' now' = Inl NoActiveAttempt"
    if "attempts_unique q \<and> submitQuiz (Some q) u body now = Inr (q', r)"
    using that submitQuiz_twice by blast
  show "\<exists>q'' r''. submitQuiz (Some q) u (Answers as) now = Inr (q'', r'')"
    if h: "(\<exists>a\<in>set (attempts q). student a = uid u \<and> status a = InProgress)
        \<and> list_all castable_answer as \<and> valid_quiz q \<and> totalMarks q = Fin t \<and> t \<noteq> 0"
  proof -
    from h have "find (active_for u) (attempts q) \<noteq> None"
      by (simp only: find_active_None) simp
    with h show ?thesis
      by (intro submitQuiz_succeeds [where t = t]) simp_all
  qed
  show "map_sum id snd (submitQuiz (Some (q\<lparr>startDate := s, endDate := e\<rparr>)) u body now')
        = map_sum id snd (submitQuiz (Some q) u body now)"
    by (rule submitQuiz_response_time)
  show "map_sum id snd (submitQuiz (Some (q\<lparr>duration := d\<rparr>)) u body now)
          = map_sum id snd (submitQuiz (Some q) u body now)"
    by (rule submitQuiz_response_duration)
qed

lemma createQuiz_empty:
  "createQuiz example_subjects empty_body example_teacher 50 = Inr empty_created"
  by (simp add: create_defs empty_body_def empty_created_def example_defs)

lemma createQuiz_infinite:
  "createQuiz example_subjects infinite_body example_teacher 50 = Inr infinite_created"
  by (simp add: create_defs infinite_body_def infinite_created_def infinite_questions_def
      example_defs)

text \<open>\<^bold>\<open>C3\<close> as stated has \<^verbatim>\<open>submitQuiz\<close> succeed whenever an in-progress attempt
  exists, and a second submission fail. A body without an \<^verbatim>\<open>answers\<close> array is answered
  with the 500 of the \<^verbatim>\<open>catch\<close> block, on the example quiz with its attempt in progress.
  So is every submission to the quiz without questions that \<^verbatim>\<open>createQuiz\<close> persists for
  \<open>empty_body\<close>, whose \<open>totalMarks\<close> is 0; and so is the right answer to the quiz that
  \<^verbatim>\<open>createQuiz\<close> persists for \<open>infinite_body\<close>, whose \<open>totalMarks\<close> is \<^verbatim>\<open>Infinity\<close>, as is
  the score. And on a document that holds two in-progress attempts of one student (what
  two interleaved starts leave behind), the second submission succeeds again.\<close>

theorem submitQuiz_active_attempt_counterexample:
  "find (active_for example_student) (attempts example_quiz) = Some (new_attempt 7 120)
   \<and> submitQuiz (Some example_quiz) example_student NoArray 150 = Inl ServerError
   \<and> createQuiz example_subjects empty_body example_teacher 50 = Inr empty_created
   \<and> startQuiz (Some empty_created) example_student 120
       = Inr (empty_quiz, quizData empty_quiz)
   \<and> find (active_for example_student) (attempts empty_quiz) = Some (new_attempt 7 120)
   \<and> submitQuiz (Some empty_quiz) example_student (Answers []) 150 = Inl ServerError
   \<and> createQuiz example_subjects infinite_body example_teacher 50 = Inr infinite_created
   \<and> startQuiz (Some infinite_created) example_student 120
       = Inr (infinite_quiz, quizData infinite_quiz)
   \<and> submitQuiz (Some infinite_quiz) example_student (Answers only_answer) 150 = Inl ServerError
   \<and> find (active_for example_student) (attempts doubled_quiz) = Some (new_attempt 7 120)
   \<and> submitQuiz (Some doubled_quiz) example_student (Answers right_answers) 150
       = Inr (doubled_quiz\<lparr>attempts :=
                [complete_attempt right_answers (Fin 8) (Fin 100) 150 (new_attempt 7 120),
                 new_attempt 7 121], updatedAt := 150, version := 3\<rparr>,
              \<lparr> message = ''Quiz submitted successfully'', res_score = Fin 8,
                res_totalMarks = Fin 8, res_percentage = Fin 100 \<rparr>)
   \<and> submitQuiz (Some (doubled_quiz\<lparr>attempts :=
                [complete_attempt right_answers (Fin 8) (Fin 100) 150 (new_attempt 7 120),
                 new_attempt 7 121], updatedAt := 150, version := 3\<rparr>)) example_student
         (Answers wrong_answers) 160
       = Inr (doubled_quiz\<lparr>attempts :=
                [complete_attempt right_answers (Fin 8) (Fin 100) 150 (new_attempt 7 120),
                 complete_attempt wrong_answers (Fin 0) (Fin 0) 160 (new_attempt 7 121)],
                updatedAt := 160, version := 4\<rparr>,
              \<lparr> message = ''Quiz submitted successfully'', res_score = Fin 0,
                res_totalMarks = Fin 8, res_percentage = Fin 0 \<rparr>)"
proof (intro conjI)
  show "createQuiz example_subjects empty_body example_teacher 50 = Inr empty_created"
    by (rule createQuiz_empty)
  show "createQuiz example_subjects infinite_body example_teacher 50 = Inr infinite_created"
    by (rule createQuiz_infinite)
qed (simp_all add: startQuiz_Some submitQuiz_NoArray submitQuiz_Answers empty_quiz_def
      empty_created_def doubled_quiz_def infinite_quiz_def infinite_created_def
      infinite_questions_def only_answer_def example_defs active_for_def complete_attempt_def
      score_defs)

text \<open>The theorem at the example quiz: before the start, at the submission, at a second
  submission, and at a submission long after the end of a window that has been moved
  into the past.\<close>

theorem submitQuiz_active_attempt_witness:
  "(submitQuiz (Some example_created) example_student (Answers right_answers) 150
      = Inl NoActiveAttempt)
   \<and> attempts_unique example_quiz
   \<and> submitQuiz (Some example_quiz) example_student (Answers right_answers) 150 =
        Inr (example_completed,
          \<lparr> message = ''Quiz submitted successfully'', res_score = Fin 8, res_totalMarks = Fin 8,
            res_percentage = Fin 100 \<rparr>)
   \<and> submitQuiz (Some example_completed) example_student (Answers wrong_answers) 160
        = Inl NoActiveAttempt
   \<and> (\<exists>a\<in>set (attempts example_quiz). student a = uid example_student \<and> status a = InProgress)
   \<and> list_all castable_answer wrong_answers
   \<and> valid_quiz example_quiz
   \<and> totalMarks example_quiz = Fin 8
   \<and> (\<exists>q'' r''. submitQuiz (Some example_quiz) example_student (Answers wrong_answers) 1000000
        = Inr (q'', r''))
   \<and> map_sum id snd (submitQuiz (Some (example_quiz\<lparr>startDate := 0, endDate := 1\<rparr>))
          example_student (Answers right_answers) 1000000)
        = Inr \<lparr> message = ''Quiz submitted successfully'', res_score = Fin 8,
            res_totalMarks = Fin 8, res_percentage = Fin 100 \<rparr>
   \<and> js_le (Fin 1) (duration example_quiz)
   \<and> map_sum id snd (submitQuiz (Some (example_quiz\<lparr>duration := Fin 1\<rparr>))
          example_student (Answers right_answers) 150)
        = Inr \<lparr> message = ''Quiz submitted successfully'', res_score = Fin 8,
            res_totalMarks = Fin 8, res_percentage = Fin 100 \<rparr>"
proof -
  have u: "attempts_unique example_quiz"
    by (simp add: attempts_unique_def example_defs)
  have n: "\<not> (\<exists>a\<in>set (attempts example_created). student a = uid example_student \<and> status a = InProgress)"
    by (simp add: example_defs)
  have a: "\<exists>a\<in>set (attempts example_quiz). student a = uid example_student \<and> status a = InProgress"
    by (simp add: example_defs)
  have c: "list_all castable_answer wrong_answers"
    by (simp add: wrong_answers_def castable_answer_def castable_def)
  have v: "valid_quiz example_quiz"
    by (simp add: example_defs valid_quiz_def valid_question_def castable_def)
  have t: "totalMarks example_quiz = Fin 8"
    by (simp add: example_defs)
  have d: "js_le (Fin 1) (duration example_quiz)" "js_le (Fin 1) (Fin 1)"
    by (simp_all add: example_defs)
  note i1 = submitQuiz_active_attempt [where q = example_created and u = example_student
      and body = "Answers right_answers" and now = 150]
  note i2 = submitQuiz_active_attempt [where q = example_quiz and u = example_student
      and body = "Answers right_answers" and now = 150 and q' = example_completed
      and body' = "Answers wrong_answers" and now' = 160 and d = "Fin 1"]
  note i3 = submitQuiz_active_attempt [where q = example_quiz and u = example_student
      and as = wrong_answers and now = 1000000 and t = 8]
  note i4 = submitQuiz_active_attempt [where q = example_quiz and u = example_student
      and body = "Answers right_answers" and now = 150 and s = 0 and e = 1 and now' = 1000000]
  from i1 n have c1: "submitQuiz (Some example_created) example_student (Answers right_answers) 150
      = Inl NoActiveAttempt"
    by blast
  from i2 u submitQuiz_example
  have c2: "submitQuiz (Some example_completed) example_student (Answers wrong_answers) 160
        = Inl NoActiveAttempt"
    by blast
  have "(\<exists>a\<in>set (attempts example_quiz). student a = uid example_student \<and> status a = InProgress)
        \<and> list_all castable_answer wrong_answers \<and> valid_quiz example_quiz
        \<and> totalMarks example_quiz = Fin 8 \<and> (8::rat) \<noteq> 0"
    using a c v t by simp
  with i3 have c3: "\<exists>q'' r''. submitQuiz (Some example_quiz) example_student (Answers wrong_answers) 1000000
        = Inr (q'', r'')"
    by blast
  from i4 have "map_sum id snd (submitQuiz (Some (example_quiz\<lparr>startDate := 0, endDate := 1\<rparr>))
          example_student (Answers right_answers) 1000000)
        = map_sum id snd (submitQuiz (Some example_quiz) example_student (Answers right_answers) 150)"
    by blast
  then have c4: "map_sum id snd (submitQuiz (Some (example_quiz\<lparr>startDate := 0, endDate := 1\<rparr>))
          example_student (Answers right_answers) 1000000)
        = Inr \<lparr> message = ''Quiz submitted successfully'', res_score = Fin 8,
            res_totalMarks = Fin 8, res_percentage = Fin 100 \<rparr>"
    by (simp add: submitQuiz_example)
  from i2 d have "map_sum id snd (submitQuiz (Some (example_quiz\<lparr>duration := Fin 1\<rparr>))
          example_student (Answers right_answers) 150)
        = map_sum id snd (submitQuiz (Some example_quiz) example_student (Answers right_answers) 150)"
    by blast
  then have c5: "map_sum id snd (submitQuiz (Some (example_quiz\<lparr>duration := Fin 1\<rparr>))
          example_student (Answers right_answers) 150)
        = Inr \<lparr> message = ''Quiz submitted successfully'', res_score = Fin 8,
            res_totalMarks = Fin 8, res_percentage = Fin 100 \<rparr>"
    by (simp add: submitQuiz_example)
  show ?thesis
    by (intro conjI c1 u submitQuiz_example c2 a c v t c3 c4 d(1) c5)
qed

subsection \<open>The availability window\<close>

text \<open>
  \<^bold>\<open>C5\<close> (amended). On an existing quiz, \<^verbatim>\<open>startQuiz\<close> answers \<open>QuizNotAvailable\<close> exactly
  when \<open>now < startDate\<close> or \<open>now > endDate\<close>. When \<open>startDate \<le> endDate\<close> and the student
  has no attempt, \<^verbatim>\<open>startQuiz\<close> succeeds at \<open>now = startDate\<close> and at \<open>now = endDate\<close>: the
  window is inclusive at both ends.
\<close>

theorem startQuiz_window:
  "(startQuiz (Some q) u now = Inl QuizNotAvailable \<longleftrightarrow> now < startDate q \<or> endDate q < now)
   \<and> (startDate q \<le> endDate q \<and> uid u \<notin> set (map student (attempts q)) \<longrightarrow>
        startQuiz (Some q) u (startDate q) =
          Inr (q\<lparr>attempts := attempts q @ [new_attempt (uid u) (startDate q)],
                 updatedAt := startDate q, version := version q + 1\<rparr>,
               quizData (q\<lparr>attempts := attempts q @ [new_attempt (uid u) (startDate q)],
                 updatedAt := startDate q, version := version q + 1\<rparr>))
        \<and> startQuiz (Some q) u (endDate q) =
          Inr (q\<lparr>attempts := attempts q @ [new_attempt (uid u) (endDate q)],
                 updatedAt := endDate q, version := version q + 1\<rparr>,
               quizData (q\<lparr>attempts := attempts q @ [new_attempt (uid u) (endDate q)],
                 updatedAt := endDate q, version := version q + 1\<rparr>)))"
proof (intro conjI impI)
  show "startQuiz (Some q) u now = Inl QuizNotAvailable \<longleftrightarrow> now < startDate q \<or> endDate q < now"
    by (simp add: startQuiz_Some)
next
  assume a: "startDate q \<le> endDate q \<and> uid u \<notin> set (map student (attempts q))"
  then have f: "find (\<lambda>a. student a = uid u) (attempts q) = None"
    by (force simp: find_None_iff)
  show "startQuiz (Some q) u (startDate q) =
          Inr (q\<lparr>attempts := attempts q @ [new_attempt (uid u) (startDate q)],
                 updatedAt := startDate q, version := version q + 1\<rparr>,
               quizData (q\<lparr>attempts := attempts q @ [new_attempt (uid u) (startDate q)],
                 updatedAt := startDate q, version := version q + 1\<rparr>))"
    using a f by (simp add: startQuiz_Some)
  show "startQuiz (Some q) u (endDate q) =
          Inr (q\<lparr>attempts := attempts q @ [new_attempt (uid u) (endDate q)],
                 updatedAt := endDate q, version := version q + 1\<rparr>,
               quizData (q\<lparr>attempts := attempts q @ [new_attempt (uid u) (endDate q)],
                 updatedAt := endDate q, version := version q + 1\<rparr>))"
    using a f by (simp add: startQuiz_Some)
qed

lemma createQuiz_reversed:
  "createQuiz example_subjects reversed_body example_teacher 50 = Inr reversed_quiz"
  by (simp add: create_defs reversed_body_def reversed_quiz_def example_defs)

text \<open>\<^bold>\<open>C5\<close> as stated has the check pass at \<open>now = startDate\<close> and \<open>now = endDate\<close> of
  every quiz. \<^verbatim>\<open>createQuiz\<close> does not compare the two dates: it persists a quiz whose
  window ends before it starts, and for that quiz both instants are outside the
  window.\<close>

theorem startQuiz_window_counterexample:
  "createQuiz example_subjects reversed_body example_teacher 50 = Inr reversed_quiz
   \<and> attempts reversed_quiz = []
   \<and> startQuiz (Some reversed_quiz) example_student (startDate reversed_quiz) = Inl QuizNotAvailable
   \<and> startQuiz (Some reversed_quiz) example_student (endDate reversed_quiz) = Inl QuizNotAvailable"
proof (intro conjI)
  show "createQuiz example_subjects reversed_body example_teacher 50 = Inr reversed_quiz"
    by (rule createQuiz_reversed)
qed (simp_all add: startQuiz_Some reversed_quiz_def example_defs)

text \<open>The theorem at the example quiz: just outside the window, inside it, and at its
  two ends.\<close>

theorem startQuiz_window_witness:
  "startQuiz (Some example_created) example_student 99 = Inl QuizNotAvailable
   \<and> startQuiz (Some example_created) example_student 201 = Inl QuizNotAvailable
   \<and> startQuiz (Some example_quiz) example_student 150 \<noteq> Inl QuizNotAvailable
   \<and> startDate example_created \<le> endDate example_created
   \<and> uid example_student \<notin> set (map student (attempts example_created))
   \<and> startQuiz (Some example_created) example_student 100 =
        Inr (example_created\<lparr>attempts := [new_attempt 7 100], updatedAt := 100, version := 1\<rparr>,
             quizData (example_created\<lparr>attempts := [new_attempt 7 100], updatedAt := 100, version := 1\<rparr>))
   \<and> startQuiz (Some example_created) example_student 200 =
        Inr (example_created\<lparr>attempts := [new_attempt 7 200], updatedAt := 200, version := 1\<rparr>,
             quizData (example_created\<lparr>attempts := [new_attempt 7 200], updatedAt := 200, version := 1\<rparr>))"
proof -
  have w: "startDate example_created \<le> endDate example_created"
    "uid example_student \<notin> set (map student (attempts example_created))"
    "startDate example_created = 100" "endDate example_created = 200"
    "attempts example_created = []" "uid example_student = 7"
    "startDate example_quiz = 100" "endDate example_quiz = 200"
    "version example_created = 0"
    by (simp_all add: example_defs)
  from startQuiz_window [where q = example_created and u = example_student and now = 99]
    startQuiz_window [where q = example_created and u = example_student and now = 201]
    startQuiz_window [where q = example_quiz and u = example_student and now = 150]
    w
  show ?thesis by simp
qed

subsection \<open>What createQuiz checks\<close>

lemma createQuiz_Inr:
  assumes "createQuiz subjects body user now = Inr q"
  shows "questions q = body_questions body" and "valid_quiz q"
  using assms by (auto simp: createQuiz_def Let_def split: option.splits if_splits)

text \<open>
  \<^bold>\<open>C6\<close> (amended). A quiz that \<^verbatim>\<open>createQuiz\<close> persists holds the questions of the request,
  and each of them has \<open>correctAnswer \<ge> 0\<close> and \<open>marks \<ge> 1\<close>; a request with a question
  whose \<open>correctAnswer\<close> is negative or whose \<open>marks\<close> are below 1 fails, and persists
  nothing. The number of options is not checked, and \<open>correctAnswer\<close> is not compared
  with it.
\<close>

theorem createQuiz_validation:
  "(createQuiz subjects body user now = Inr q \<longrightarrow>
      questions q = body_questions body
      \<and> (\<forall>qu\<in>set (questions q). js_le (Fin 0) (correctAnswer qu) \<and> js_le (Fin 1) (marks qu)))
   \<and> ((\<exists>qu\<in>set (body_questions body). js_lt (correctAnswer qu) (Fin 0) \<or> js_lt (marks qu) (Fin 1)) \<longrightarrow>
        isl (createQuiz subjects body user now))"
proof (intro conjI impI)
  assume c: "createQuiz subjects body user now = Inr q"
  then show "questions q = body_questions body" by (rule createQuiz_Inr)
  from c have "valid_quiz q" by (rule createQuiz_Inr)
  then show "\<forall>qu\<in>set (questions q). js_le (Fin 0) (correctAnswer qu) \<and> js_le (Fin 1) (marks qu)"
    by (simp add: valid_quiz_def valid_question_def list_all_iff)
next
  assume b: "\<exists>qu\<in>set (body_questions body). js_lt (correctAnswer qu) (Fin 0) \<or> js_lt (marks qu) (Fin 1)"
  show "isl (createQuiz subjects body user now)"
  proof (cases "createQuiz subjects body user now")
    case (Inl e)
    then show ?thesis by simp
  next
    case (Inr q)
    from createQuiz_Inr [OF Inr]
    have "\<forall>qu\<in>set (body_questions body). js_le (Fin 0) (correctAnswer qu) \<and> js_le (Fin 1) (marks qu)"
      by (simp add: valid_quiz_def valid_question_def list_all_iff)
    with b show ?thesis by (blast dest: js_lt_not_le)
  qed
qed

lemma createQuiz_unchecked:
  "createQuiz example_subjects unchecked_body example_teacher 50 = Inr unchecked_quiz"
  by (simp add: create_defs unchecked_body_def unchecked_quiz_def unchecked_questions_def
      example_defs)

text \<open>\<^bold>\<open>C6\<close> as stated has \<^verbatim>\<open>createQuiz\<close> fail when a question has no option or a
  correct index past its options. The request \<open>unchecked_body\<close> has a question of each
  kind, and its quiz is persisted.\<close>

theorem createQuiz_validation_counterexample:
  "createQuiz example_subjects unchecked_body example_teacher 50 = Inr unchecked_quiz
   \<and> options (questions unchecked_quiz ! 0) = []
   \<and> correctAnswer (questions unchecked_quiz ! 1) = Fin 5
   \<and> length (options (questions unchecked_quiz ! 1)) = 1"
proof (intro conjI)
  show "createQuiz example_subjects unchecked_body example_teacher 50 = Inr unchecked_quiz"
    by (rule createQuiz_unchecked)
qed (simp_all add: unchecked_quiz_def unchecked_questions_def)

text \<open>The theorem at the example request, and at a request with the correct index
  \<open>-1\<close>.\<close>

theorem createQuiz_validation_witness:
  "createQuiz example_subjects example_body example_teacher 50 = Inr example_created
   \<and> questions example_created = body_questions example_body
   \<and> list_all (\<lambda>qu. js_le (Fin 0) (correctAnswer qu) \<and> js_le (Fin 1) (marks qu))
         (questions example_created)
   \<and> (\<exists>qu\<in>set (body_questions negative_body).
         js_lt (correctAnswer qu) (Fin 0) \<or> js_lt (marks qu) (Fin 1))
   \<and> createQuiz example_subjects negative_body example_teacher 50 = Inl ServerError"
proof -
  have b: "\<exists>qu\<in>set (body_questions negative_body).
         js_lt (correctAnswer qu) (Fin 0) \<or> js_lt (marks qu) (Fin 1)"
    by (simp add: negative_body_def)
  have e: "createQuiz example_subjects negative_body example_teacher 50 = Inl ServerError
       \<or> \<not> isl (createQuiz example_subjects negative_body example_teacher 50)"
    by (simp add: create_defs negative_body_def example_defs)
  from createQuiz_validation [where subjects = example_subjects and body = example_body
      and user = example_teacher and now = 50 and q = example_created]
    createQuiz_validation [where subjects = example_subjects and body = negative_body
      and user = example_teacher and now = 50]
    createQuiz_example b e
  show ?thesis by (auto simp: list_all_iff)
qed

subsection \<open>Results\<close>

text \<open>
  \<^bold>\<open>C7.\<close> On an existing quiz, \<^verbatim>\<open>getQuizResults\<close> answers \<open>Forbidden\<close> when the requester
  is neither the teacher of the quiz nor an admin. Otherwise it answers the title and
  the total marks of the quiz, the completed attempts in their order, each as student
  identity, score, percentage and submission time, and their number as
  \<open>totalStudents\<close>; an attempt in progress is not among them.
\<close>

theorem getQuizResults_authorised:
  "(teacher q \<noteq> uid u \<and> role u \<noteq> Admin \<longrightarrow> getQuizResults users (Some q) u = Inl Forbidden)
   \<and> (teacher q = uid u \<or> role u = Admin \<longrightarrow>
        getQuizResults users (Some q) u =
          Inr \<lparr> quizTitle = title q, results_totalMarks = totalMarks q,
                totalStudents = length (filter (\<lambda>a. status a = Completed) (attempts q)),
                results =
                  map (\<lambda>a. \<lparr> result_student = users (student a), result_score = score a,
                             result_percentage = percentage a,
                             result_submittedAt = submittedAt a \<rparr>)
                    (filter (\<lambda>a. status a = Completed) (attempts q)) \<rparr>)"
proof (intro conjI impI)
  assume "teacher q \<noteq> uid u \<and> role u \<noteq> Admin"
  then show "getQuizResults users (Some q) u = Inl Forbidden"
    by (simp add: getQuizResults_def)
next
  assume "teacher q = uid u \<or> role u = Admin"
  then have "\<not> (teacher q \<noteq> uid u \<and> role u \<noteq> Admin)"
    by blast
  then show "getQuizResults users (Some q) u =
          Inr \<lparr> quizTitle = title q, results_totalMarks = totalMarks q,
                totalStudents = length (filter (\<lambda>a. status a = Completed) (attempts q)),
                results =
                  map (\<lambda>a. \<lparr> result_student = users (student a), result_score = score a,
                             result_percentage = percentage a,
                             result_submittedAt = submittedAt a \<rparr>)
                    (filter (\<lambda>a. status a = Completed) (attempts q)) \<rparr>"
    unfolding getQuizResults_def Let_def result_of_def by simp
qed

text \<open>The theorem at a quiz with one completed and one in-progress attempt: another
  teacher and a student are refused, the teacher of the quiz and an admin get the one
  completed attempt.\<close>

theorem getQuizResults_authorised_witness:
  "teacher results_quiz \<noteq> uid other_teacher \<and> role other_teacher \<noteq> Admin
   \<and> getQuizResults example_users (Some results_quiz) other_teacher = Inl Forbidden
   \<and> teacher results_quiz \<noteq> uid example_student
   \<and> getQuizResults example_users (Some results_quiz) example_student = Inl Forbidden
   \<and> teacher results_quiz = uid example_teacher
   \<and> getQuizResults example_users (Some results_quiz) example_teacher =
        Inr \<lparr> quizTitle = ''Quiz'', results_totalMarks = Fin 8, totalStudents = 1,
              results =
                [\<lparr> result_student =
                      Some \<lparr> student_id = 7, student_name = ''Ada'', enrollmentNumber = ''E7'' \<rparr>,
                    result_score = Some (Fin 8), result_percentage = Some (Fin 100),
                    result_submittedAt = Some 150 \<rparr>] \<rparr>
   \<and> role example_admin = Admin
   \<and> getQuizResults example_users (Some results_quiz) example_admin =
        getQuizResults example_users (Some results_quiz) example_teacher"
proof -
  have h: "teacher results_quiz \<noteq> uid other_teacher" "role other_teacher \<noteq> Admin"
    "teacher results_quiz \<noteq> uid example_student" "role example_student \<noteq> Admin"
    "teacher results_quiz = uid example_teacher" "role example_admin = Admin"
    by (simp_all add: results_quiz_def other_teacher_def example_admin_def example_defs)
  have v: "title results_quiz = ''Quiz''" "totalMarks results_quiz = Fin 8"
    "attempts results_quiz =
       [complete_attempt right_answers (Fin 8) (Fin 100) 150 (new_attempt 7 120), new_attempt 8 130]"
    by (simp_all add: results_quiz_def example_defs)
  from getQuizResults_authorised [where q = results_quiz and u = other_teacher and users = example_users]
    getQuizResults_authorised [where q = results_quiz and u = example_student and users = example_users]
    getQuizResults_authorised [where q = results_quiz and u = example_teacher and users = example_users]
    getQuizResults_authorised [where q = results_quiz and u = example_admin and users = example_users]
    h
  show ?thesis
    by (simp add: v complete_attempt_def new_attempt_def example_users_def)
qed

subsection \<open>What startQuiz answers\<close>

lemma strip_with_correct:
  "length cs = length qs \<Longrightarrow>
     map (strip_question \<circ> (\<lambda>(qu, c). qu\<lparr>correctAnswer := c\<rparr>)) (zip qs cs)
       = map strip_question qs"
proof (induction qs arbitrary: cs)
  case Nil
  show ?case by simp
next
  case (Cons x xs)
  then obtain c cs' where "cs = c # cs'" by (cases cs) auto
  with Cons show ?case by (simp add: strip_question_def)
qed

text \<open>
  \<^bold>\<open>C4.\<close> The questions in the answer of a successful \<^verbatim>\<open>startQuiz\<close> are the stored
  questions reduced to id, text, options and marks: the type of the answered question
  has no field for the correct option. The answer of \<^verbatim>\<open>startQuiz\<close>, error or payload, is
  the same for two quizzes that differ only in the correct option indices of their
  questions, and it is the same whatever the role of the principal.
\<close>

theorem startQuiz_hides_correct_answers:
  "(startQuiz (Some q) u now = Inr (q', d) \<longrightarrow>
      questions d =
        map (\<lambda>qu. \<lparr> data_id = question_id qu, data_questionText = questionText qu,
                    data_options = options qu, data_marks = marks qu \<rparr>) (questions q))
   \<and> (length cs = length (questions q) \<longrightarrow>
        map_sum id snd (startQuiz (Some (with_correct cs q)) u now)
          = map_sum id snd (startQuiz (Some q) u now))
   \<and> map_sum id snd (startQuiz (Some q) (u\<lparr>role := r\<rparr>) now)
        = map_sum id snd (startQuiz (Some q) u now)"
proof (intro conjI impI)
  show "questions d =
        map (\<lambda>qu. \<lparr> data_id = question_id qu, data_questionText = questionText qu,
                    data_options = options qu, data_marks = marks qu \<rparr>) (questions q)"
    if "startQuiz (Some q) u now = Inr (q', d)"
    using that by (auto simp: startQuiz_Some quizData_def strip_question_def split: if_splits)
  show "map_sum id snd (startQuiz (Some (with_correct cs q)) u now)
          = map_sum id snd (startQuiz (Some q) u now)"
    if l: "length cs = length (questions q)"
  proof -
    have a: "attempts (with_correct cs q) = attempts q" "startDate (with_correct cs q) = startDate q"
      "endDate (with_correct cs q) = endDate q" "version (with_correct cs q) = version q"
      by (simp_all add: with_correct_def)
    have "quizData ((with_correct cs q)\<lparr>attempts := xs, updatedAt := t, version := v\<rparr>)
        = quizData (q\<lparr>attempts := xs, updatedAt := t, version := v\<rparr>)" for xs t v
      using l by (simp add: quizData_def with_correct_def strip_with_correct)
    then show ?thesis by (simp add: startQuiz_Some a)
  qed
  show "map_sum id snd (startQuiz (Some q) (u\<lparr>role := r\<rparr>) now)
        = map_sum id snd (startQuiz (Some q) u now)"
    by (simp add: startQuiz_Some)
qed

text \<open>The theorem at the example quiz, at the same quiz with the correct options
  exchanged, and for an admin.\<close>

theorem startQuiz_hides_correct_answers_witness:
  "startQuiz (Some example_created) example_student 120 = Inr (example_quiz, quizData example_quiz)
   \<and> questions (quizData example_quiz) =
       [\<lparr> data_id = 11, data_questionText = ''Q1'', data_options = [''a'', ''b''], data_marks = Fin 5 \<rparr>,
        \<lparr> data_id = 12, data_questionText = ''Q2'', data_options = [''a'', ''b''], data_marks = Fin 3 \<rparr>]
   \<and> length [Fin 0, Fin 1] = length (questions example_created)
   \<and> map correctAnswer (questions (with_correct [Fin 0, Fin 1] example_created)) = [Fin 0, Fin 1]
   \<and> map correctAnswer (questions example_created) = [Fin 1, Fin 0]
   \<and> map_sum id snd (startQuiz (Some (with_correct [Fin 0, Fin 1] example_created)) example_student 120)
       = Inr (quizData example_quiz)
   \<and> map_sum id snd (startQuiz (Some example_created) (example_student\<lparr>role := Admin\<rparr>) 120)
       = Inr (quizData example_quiz)"
proof -
  have l: "length [Fin 0, Fin 1] = length (questions example_created)"
    by (simp add: example_defs)
  have c: "map correctAnswer (questions (with_correct [Fin 0, Fin 1] example_created)) = [Fin 0, Fin 1]"
    "map correctAnswer (questions example_created) = [Fin 1, Fin 0]"
    "questions example_created = example_questions"
    by (simp_all add: with_correct_def example_defs)
  from startQuiz_hides_correct_answers [where q = example_created and u = example_student
      and now = 120 and q' = example_quiz and d = "quizData example_quiz" and cs = "[Fin 0, Fin 1]"
      and r = Admin]
    startQuiz_example l c
  show ?thesis by (simp add: example_questions_def)
qed

subsection \<open>The order of the answers\<close>

lemma mset_earned_marks:
  "mset as = mset bs \<Longrightarrow> mset (earned_marks qs as) = mset (earned_marks qs bs)"
  by (simp add: earned_marks_def map_filter_def)

lemma list_all_mset: "mset xs = mset ys \<Longrightarrow> list_all P xs = list_all P ys"
  by (auto simp: list_all_iff dest: mset_eq_setD)

lemma exact_sum_mset: "mset xs = mset ys \<Longrightarrow> exact_sum xs = exact_sum ys"
proof -
  assume "mset xs = mset ys"
  then have "sum_mset (image_mset rat_of (mset xs)) = sum_mset (image_mset rat_of (mset ys))"
    by simp
  then show ?thesis
    by (simp add: exact_sum_def sum_mset_sum_list [symmetric])
qed

lemma calculate_score_mset:
  assumes "mset as1 = mset as2" and "list_all natural (earned_marks qs as1)"
    and "exact_sum (earned_marks qs as1) \<le> 2 ^ 53"
  shows "calculate_score qs as2 = calculate_score qs as1"
proof -
  note m = mset_earned_marks [OF assms(1), of qs]
  from assms(2) have n: "list_all natural (earned_marks qs as2)"
    by (simp only: list_all_mset [OF m])
  from assms(3) have s: "exact_sum (earned_marks qs as2) \<le> 2 ^ 53"
    by (simp only: exact_sum_mset [OF m])
  have "calculate_score qs as2 = Fin (exact_sum (earned_marks qs as2))"
    using n s by (rule calculate_score_exact)
  also have "\<dots> = Fin (exact_sum (earned_marks qs as1))"
    by (simp only: exact_sum_mset [OF m])
  also have "\<dots> = calculate_score qs as1"
    using assms(2,3) by (rule calculate_score_exact [symmetric])
  finally show ?thesis .
qed

lemma earns_representable:
  assumes "list_all (\<lambda>qu. representable (marks qu)) qs" and "earns qs a = Some m"
  shows "js_add (Fin 0) m = m"
proof -
  from earns_Some_marks [OF assms(2)] assms(1) have "representable m"
    by (auto simp: list_all_iff)
  then show ?thesis by (rule js_add_zero)
qed

lemma calculate_score_swap:
  assumes "list_all (\<lambda>qu. representable (marks qu)) qs"
  shows "calculate_score qs [a, b] = calculate_score qs [b, a]"
proof (cases "earns qs a")
  case None
  then show ?thesis
    by (simp add: calculate_score_def score_step_earns split: option.splits)
next
  case a: (Some m)
  show ?thesis
  proof (cases "earns qs b")
    case None
    with a show ?thesis
      by (simp add: calculate_score_def score_step_earns)
  next
    case b: (Some n)
    have "js_add (js_add (Fin 0) m) n = js_add (js_add (Fin 0) n) m"
      by (simp only: earns_representable [OF assms a] earns_representable [OF assms b]
          js_add_commute [of m n])
    with a b show ?thesis
      by (simp add: calculate_score_def score_step_earns)
  qed
qed

text \<open>
  \<^bold>\<open>C9\<close> (amended). When the marks the answers earn are natural numbers and their sum is
  at most \<open>2 ^ 53\<close>, the score of a list of answers is the score of every permutation of
  the list, and so is the answer of \<^verbatim>\<open>submitQuiz\<close> (score, total marks and percentage, or
  the error). Two answers have the same score in either order, whatever the marks of the
  questions (every mark being a double); in particular \<open>[{0,1},{1,0}]\<close> and
  \<open>[{1,0},{0,1}]\<close> do.
\<close>

theorem scoring_order_independent:
  "(mset as1 = mset as2 \<and> list_all natural (earned_marks (questions q) as1)
      \<and> exact_sum (earned_marks (questions q) as1) \<le> 2 ^ 53 \<longrightarrow>
      calculate_score (questions q) as2 = calculate_score (questions q) as1
      \<and> map_sum id snd (submitQuiz (Some q) u (Answers as2) now)
          = map_sum id snd (submitQuiz (Some q) u (Answers as1) now))
   \<and> (list_all (\<lambda>qu. representable (marks qu)) (questions q) \<longrightarrow>
        calculate_score (questions q) [a, b] = calculate_score (questions q) [b, a]
        \<and> calculate_score (questions q)
            [\<lparr>questionIndex = Fin 0, selectedOption = Fin 1\<rparr>,
             \<lparr>questionIndex = Fin 1, selectedOption = Fin 0\<rparr>]
          = calculate_score (questions q)
            [\<lparr>questionIndex = Fin 1, selectedOption = Fin 0\<rparr>,
             \<lparr>questionIndex = Fin 0, selectedOption = Fin 1\<rparr>])"
proof (intro conjI impI)
  assume h: "mset as1 = mset as2 \<and> list_all natural (earned_marks (questions q) as1)
      \<and> exact_sum (earned_marks (questions q) as1) \<le> 2 ^ 53"
  then show s: "calculate_score (questions q) as2 = calculate_score (questions q) as1"
    by (intro calculate_score_mset) simp_all
  from h have "list_all castable_answer as2 = list_all castable_answer as1"
    by (intro list_all_mset) simp
  then show "map_sum id snd (submitQuiz (Some q) u (Answers as2) now)
          = map_sum id snd (submitQuiz (Some q) u (Answers as1) now)"
    by (simp add: submitQuiz_Answers s)
next
  assume r: "list_all (\<lambda>qu. representable (marks qu)) (questions q)"
  then show "calculate_score (questions q) [a, b] = calculate_score (questions q) [b, a]"
    by (rule calculate_score_swap)
  from r show "calculate_score (questions q)
            [\<lparr>questionIndex = Fin 0, selectedOption = Fin 1\<rparr>,
             \<lparr>questionIndex = Fin 1, selectedOption = Fin 0\<rparr>]
          = calculate_score (questions q)
            [\<lparr>questionIndex = Fin 1, selectedOption = Fin 0\<rparr>,
             \<lparr>questionIndex = Fin 0, selectedOption = Fin 1\<rparr>]"
    by (rule calculate_score_swap)
qed

lemma createQuiz_large:
  "createQuiz example_subjects large_body example_teacher 50 = Inr large_created"
  by (simp add: createQuiz_def trim_def is_space_def valid_quiz_def valid_question_def
      sum_marks_def castable_def large_body_def large_created_def large_questions_def
      example_defs eval_double)

lemma createQuiz_fraction:
  "createQuiz example_subjects fraction_body example_teacher 50 = Inr fraction_created"
  by (simp add: createQuiz_def trim_def is_space_def valid_quiz_def valid_question_def
      sum_marks_def castable_def fraction_body_def fraction_created_def fraction_questions_def
      example_defs eval_double)

lemmas order_defs =
  calculate_score_def score_step_def at_index_def js_eq_def ascending_answers_def
  descending_answers_def eval_double

lemma large_scores:
  "calculate_score large_questions ascending_answers = Fin 9007199254740992"
  "calculate_score large_questions descending_answers = Fin 9007199254740994"
  by (simp_all add: order_defs large_questions_def)

lemma fraction_scores:
  "calculate_score fraction_questions ascending_answers = Fin (2026619832316723 / 562949953421312)"
  "calculate_score fraction_questions descending_answers = Fin (8106479329266893 / 2251799813685248)"
  by (simp_all add: order_defs fraction_questions_def)

lemma order_percentages:
  "times100 (js_divide (Fin 9007199254740992) (Fin 9007199254740992)) = Fin 100"
  "times100 (js_divide (Fin 9007199254740994) (Fin 9007199254740992))
     = Fin (3518437208883201 / 35184372088832)"
  "times100 (js_divide (Fin (2026619832316723 / 562949953421312))
       (Fin (2026619832316723 / 562949953421312))) = Fin 100"
  "times100 (js_divide (Fin (8106479329266893 / 2251799813685248))
       (Fin (2026619832316723 / 562949953421312))) = Fin (3518437208883201 / 35184372088832)"
  by (simp_all add: eval_double)

lemma order_answers:
  "list_all castable_answer ascending_answers" "list_all castable_answer descending_answers"
  by (simp_all add: ascending_answers_def descending_answers_def castable_answer_def castable_def)

lemma order_quizzes:
  "questions large_quiz = large_questions" "totalMarks large_quiz = Fin 9007199254740992"
  "find (active_for example_student) (attempts large_quiz) \<noteq> None"
  "questions fraction_quiz = fraction_questions"
  "totalMarks fraction_quiz = Fin (2026619832316723 / 562949953421312)"
  "find (active_for example_student) (attempts fraction_quiz) \<noteq> None"
  by (simp_all add: large_quiz_def large_created_def fraction_quiz_def fraction_created_def
      example_defs active_for_def)

text \<open>\<^bold>\<open>C9\<close> as stated has the score of every list be the score of its permutations. The
  handler adds doubles, and that sum depends on the order. \<^verbatim>\<open>createQuiz\<close> persists a quiz
  whose questions are worth \<open>2 ^ 53\<close>, 1 and 1 marks: the right answers in the order of
  the questions score \<open>2 ^ 53\<close>, and in the reverse order \<open>2 ^ 53 + 2\<close>. It persists a quiz
  whose questions are worth \<^verbatim>\<open>1.1\<close>, \<^verbatim>\<open>1.2\<close> and \<^verbatim>\<open>1.3\<close> marks: the right answers score
  \<^verbatim>\<open>3.5999999999999996\<close> in the order of the questions and \<^verbatim>\<open>3.6\<close> in the reverse order.
  The percentages differ as the scores do.\<close>

theorem scoring_order_independent_counterexample:
  "mset ascending_answers = mset descending_answers
   \<and> createQuiz example_subjects large_body example_teacher 50 = Inr large_created
   \<and> startQuiz (Some large_created) example_student 120 = Inr (large_quiz, quizData large_quiz)
   \<and> map_sum id snd (submitQuiz (Some large_quiz) example_student (Answers ascending_answers) 150)
       = Inr \<lparr> message = ''Quiz submitted successfully'', res_score = Fin 9007199254740992,
               res_totalMarks = Fin 9007199254740992, res_percentage = Fin 100 \<rparr>
   \<and> map_sum id snd (submitQuiz (Some large_quiz) example_student (Answers descending_answers) 150)
       = Inr \<lparr> message = ''Quiz submitted successfully'', res_score = Fin 9007199254740994,
               res_totalMarks = Fin 9007199254740992,
               res_percentage = Fin (3518437208883201 / 35184372088832) \<rparr>
   \<and> createQuiz example_subjects fraction_body example_teacher 50 = Inr fraction_created
   \<and> startQuiz (Some fraction_created) example_student 120
       = Inr (fraction_quiz, quizData fraction_quiz)
   \<and> map_sum id snd (submitQuiz (Some fraction_quiz) example_student (Answers ascending_answers) 150)
       = Inr \<lparr> message = ''Quiz submitted successfully'',
               res_score = Fin (2026619832316723 / 562949953421312),
               res_totalMarks = Fin (2026619832316723 / 562949953421312),
               res_percentage = Fin 100 \<rparr>
   \<and> map_sum id snd (submitQuiz (Some fraction_quiz) example_student (Answers descending_answers) 150)
       = Inr \<lparr> message = ''Quiz submitted successfully'',
               res_score = Fin (8106479329266893 / 2251799813685248),
               res_totalMarks = Fin (2026619832316723 / 562949953421312),
               res_percentage = Fin (3518437208883201 / 35184372088832) \<rparr>"
proof (intro conjI)
  show "mset ascending_answers = mset descending_answers"
    by (simp add: ascending_answers_def descending_answers_def)
  show "createQuiz example_subjects large_body example_teacher 50 = Inr large_created"
    by (rule createQuiz_large)
  show "startQuiz (Some large_created) example_student 120 = Inr (large_quiz, quizData large_quiz)"
    by (simp add: startQuiz_Some large_quiz_def large_created_def example_defs)
  show "createQuiz example_subjects fraction_body example_teacher 50 = Inr fraction_created"
    by (rule createQuiz_fraction)
  show "startQuiz (Some fraction_created) example_student 120
       = Inr (fraction_quiz, quizData fraction_quiz)"
    by (simp add: startQuiz_Some fraction_quiz_def fraction_created_def example_defs)
  show "map_sum id snd (submitQuiz (Some large_quiz) example_student (Answers ascending_answers) 150)
       = Inr \<lparr> message = ''Quiz submitted successfully'', res_score = Fin 9007199254740992,
               res_totalMarks = Fin 9007199254740992, res_percentage = Fin 100 \<rparr>"
    unfolding submitQuiz_Answers order_quizzes(1,2) large_scores order_percentages
    using order_quizzes(3) order_answers by (simp add: castable_def)
  show "map_sum id snd (submitQuiz (Some large_quiz) example_student (Answers descending_answers) 150)
       = Inr \<lparr> message = ''Quiz submitted successfully'', res_score = Fin 9007199254740994,
               res_totalMarks = Fin 9007199254740992,
               res_percentage = Fin (3518437208883201 / 35184372088832) \<rparr>"
    unfolding submitQuiz_Answers order_quizzes(1,2) large_scores order_percentages
    using order_quizzes(3) order_answers by (simp add: castable_def)
  show "map_sum id snd (submitQuiz (Some fraction_quiz) example_student (Answers ascending_answers) 150)
       = Inr \<lparr> message = ''Quiz submitted successfully'',
               res_score = Fin (2026619832316723 / 562949953421312),
               res_totalMarks = Fin (2026619832316723 / 562949953421312),
               res_percentage = Fin 100 \<rparr>"
    unfolding submitQuiz_Answers order_quizzes(4,5) fraction_scores order_percentages
    using order_quizzes(6) order_answers by (simp add: castable_def)
  show "map_sum id snd (submitQuiz (Some fraction_quiz) example_student (Answers descending_answers) 150)
       = Inr \<lparr> message = ''Quiz submitted successfully'',
               res_score = Fin (8106479329266893 / 2251799813685248),
               res_totalMarks = Fin (2026619832316723 / 562949953421312),
               res_percentage = Fin (3518437208883201 / 35184372088832) \<rparr>"
    unfolding submitQuiz_Answers order_quizzes(4,5) fraction_scores order_percentages
    using order_quizzes(6) order_answers by (simp add: castable_def)
qed

text \<open>The theorem at the example quiz and the right answers in reverse order, and at the
  quiz with marks \<^verbatim>\<open>1.1\<close>, \<^verbatim>\<open>1.2\<close> and \<^verbatim>\<open>1.3\<close> and the right answers to its first and its last
  question.\<close>

theorem scoring_order_independent_witness:
  "mset right_answers = mset (rev right_answers)
   \<and> list_all natural (earned_marks (questions example_quiz) right_answers)
   \<and> exact_sum (earned_marks (questions example_quiz) right_answers) \<le> 2 ^ 53
   \<and> calculate_score (questions example_quiz) right_answers = Fin 8
   \<and> calculate_score (questions example_quiz) (rev right_answers) = Fin 8
   \<and> map_sum id snd (submitQuiz (Some example_quiz) example_student (Answers (rev right_answers)) 150)
       = Inr \<lparr> message = ''Quiz submitted successfully'', res_score = Fin 8,
               res_totalMarks = Fin 8, res_percentage = Fin 100 \<rparr>
   \<and> list_all (\<lambda>qu. representable (marks qu)) (questions fraction_quiz)
   \<and> calculate_score (questions fraction_quiz)
        [\<lparr>questionIndex = Fin 0, selectedOption = Fin 0\<rparr>, \<lparr>questionIndex = Fin 2, selectedOption = Fin 0\<rparr>]
      = calculate_score (questions fraction_quiz)
        [\<lparr>questionIndex = Fin 2, selectedOption = Fin 0\<rparr>, \<lparr>questionIndex = Fin 0, selectedOption = Fin 0\<rparr>]
   \<and> calculate_score (questions fraction_quiz)
        [\<lparr>questionIndex = Fin 0, selectedOption = Fin 1\<rparr>, \<lparr>questionIndex = Fin 1, selectedOption = Fin 0\<rparr>]
      = calculate_score (questions fraction_quiz)
        [\<lparr>questionIndex = Fin 1, selectedOption = Fin 0\<rparr>, \<lparr>questionIndex = Fin 0, selectedOption = Fin 1\<rparr>]"
proof -
  have m: "mset right_answers = mset (rev right_answers)" by simp
  have e: "earned_marks (questions example_quiz) right_answers = [Fin 5, Fin 3]"
    by (simp add: earned_marks_def map_filter_simps earns_def at_index_def js_eq_def example_defs)
  have n: "list_all natural (earned_marks (questions example_quiz) right_answers)"
    and x: "exact_sum (earned_marks (questions example_quiz) right_answers) \<le> 2 ^ 53"
    by (simp_all add: e natural_def exact_sum_def)
  have s: "calculate_score (questions example_quiz) right_answers = Fin 8"
    by (simp add: score_defs example_defs)
  have p: "list_all (\<lambda>qu. representable (marks qu)) (questions fraction_quiz)"
    by (simp add: fraction_quiz_def fraction_created_def fraction_questions_def
        representable_def eval_double)
  note t = scoring_order_independent [where ?as1.0 = right_answers
      and ?as2.0 = "rev right_answers" and q = example_quiz and u = example_student and now = 150]
  note t' = scoring_order_independent [where q = fraction_quiz
      and a = "\<lparr>questionIndex = Fin 0, selectedOption = Fin 0\<rparr>"
      and b = "\<lparr>questionIndex = Fin 2, selectedOption = Fin 0\<rparr>"]
  from t m n x have "calculate_score (questions example_quiz) (rev right_answers)
      = calculate_score (questions example_quiz) right_answers"
    by blast
  with s have s': "calculate_score (questions example_quiz) (rev right_answers) = Fin 8"
    by simp
  from t m n x
  have "map_sum id snd (submitQuiz (Some example_quiz) example_student (Answers (rev right_answers)) 150)
      = map_sum id snd (submitQuiz (Some example_quiz) example_student (Answers right_answers) 150)"
    by blast
  then have r: "map_sum id snd (submitQuiz (Some example_quiz) example_student (Answers (rev right_answers)) 150)
       = Inr \<lparr> message = ''Quiz submitted successfully'', res_score = Fin 8,
               res_totalMarks = Fin 8, res_percentage = Fin 100 \<rparr>"
    by (simp add: submitQuiz_example)
  from t' p have f: "calculate_score (questions fraction_quiz)
        [\<lparr>questionIndex = Fin 0, selectedOption = Fin 0\<rparr>, \<lparr>questionIndex = Fin 2, selectedOption = Fin 0\<rparr>]
      = calculate_score (questions fraction_quiz)
        [\<lparr>questionIndex = Fin 2, selectedOption = Fin 0\<rparr>, \<lparr>questionIndex = Fin 0, selectedOption = Fin 0\<rparr>]"
    by blast
  from t' p have g: "calculate_score (questions fraction_quiz)
        [\<lparr>questionIndex = Fin 0, selectedOption = Fin 1\<rparr>, \<lparr>questionIndex = Fin 1, selectedOption = Fin 0\<rparr>]
      = calculate_score (questions fraction_quiz)
        [\<lparr>questionIndex = Fin 1, selectedOption = Fin 0\<rparr>, \<lparr>questionIndex = Fin 0, selectedOption = Fin 1\<rparr>]"
    by blast
  show ?thesis by (intro conjI m n x s s' r p f g)
qed

subsection \<open>What submitQuiz changes\<close>

lemma update_first_split:
  assumes "find P xs = Some a"
  shows "\<exists>pre post. xs = pre @ a # post \<and> list_all (\<lambda>b. \<not> P b) pre \<and> P a
           \<and> update_first P f xs = pre @ f a # post"
  using assms
proof (induction xs)
  case Nil
  then show ?case by simp
next
  case (Cons x xs)
  show ?case
  proof (cases "P x")
    case True
    with Cons.prems have "x = a" by simp
    with True have "x # xs = [] @ a # xs \<and> list_all (\<lambda>b. \<not> P b) [] \<and> P a
           \<and> update_first P f (x # xs) = [] @ f a # xs" by simp
    then show ?thesis by blast
  next
    case False
    with Cons.prems have "find P xs = Some a" by simp
    from Cons.IH [OF this] obtain pre post where
      "xs = pre @ a # post" "list_all (\<lambda>b. \<not> P b) pre" "P a"
      "update_first P f xs = pre @ f a # post" by blast
    with False have "x # xs = (x # pre) @ a # post \<and> list_all (\<lambda>b. \<not> P b) (x # pre) \<and> P a
           \<and> update_first P f (x # xs) = (x # pre) @ f a # post" by simp
    then show ?thesis by blast
  qed
qed

text \<open>
  \<^bold>\<open>C10\<close> (amended). A successful \<^verbatim>\<open>submitQuiz\<close> saves a document with the title,
  description, subject, teacher, questions, total marks, duration, start date, end
  date, active flag and creation date it loaded, with \<open>updatedAt\<close> set to the time of
  the save, and with the attempts it loaded but for one: the first in-progress attempt
  of the student, whose \<open>answers\<close>, \<open>score\<close>, \<open>percentage\<close>, \<open>submittedAt\<close> and \<open>status\<close>
  are assigned. The attempts before and after it are unchanged. The version key is
  incremented, unless the answers are an empty array and so were those of the attempt.
\<close>

theorem submitQuiz_frame:
  "submitQuiz (Some q) u (Answers as) now = Inr (q', r) \<longrightarrow>
     title q' = title q \<and> description q' = description q \<and> subject q' = subject q
     \<and> teacher q' = teacher q \<and> questions q' = questions q \<and> totalMarks q' = totalMarks q
     \<and> duration q' = duration q \<and> startDate q' = startDate q \<and> endDate q' = endDate q
     \<and> isActive q' = isActive q \<and> createdAt q' = createdAt q \<and> updatedAt q' = now
     \<and> (\<exists>pre a post.
           attempts q = pre @ a # post
           \<and> list_all (\<lambda>b. \<not> (student b = uid u \<and> status b = InProgress)) pre
           \<and> student a = uid u \<and> status a = InProgress
           \<and> attempts q' =
               pre @ a\<lparr> answers := as, score := Some (res_score r),
                         percentage := Some (res_percentage r),
                         submittedAt := Some now, status := Completed \<rparr> # post
           \<and> version q' = (if as = [] \<and> answers a = [] then version q else version q + 1))"
proof
  assume s: "submitQuiz (Some q) u (Answers as) now = Inr (q', r)"
  let ?sc = "calculate_score (questions q) as"
  let ?pc = "times100 (js_divide ?sc (totalMarks q))"
  from s obtain a where f: "find (active_for u) (attempts q) = Some a"
    by (auto simp: submitQuiz_Answers split: if_splits)
  from s f have q': "q' = q\<lparr>attempts := update_first (active_for u)
      (complete_attempt as ?sc ?pc now) (attempts q), updatedAt := now,
      version := (if as = [] \<and> answers a = [] then version q else version q + 1)\<rparr>"
    and r: "res_score r = ?sc" "res_percentage r = ?pc"
    by (auto simp: submitQuiz_Answers split: if_splits)
  from update_first_split [OF f, of "complete_attempt as ?sc ?pc now"]
  obtain pre post where p: "attempts q = pre @ a # post" "list_all (\<lambda>b. \<not> active_for u b) pre"
    "active_for u a"
    "update_first (active_for u) (complete_attempt as ?sc ?pc now) (attempts q)
       = pre @ complete_attempt as ?sc ?pc now a # post"
    by blast
  have "attempts q = pre @ a # post
           \<and> list_all (\<lambda>b. \<not> (student b = uid u \<and> status b = InProgress)) pre
           \<and> student a = uid u \<and> status a = InProgress
           \<and> attempts q' =
               pre @ a\<lparr> answers := as, score := Some (res_score r),
                         percentage := Some (res_percentage r),
                         submittedAt := Some now, status := Completed \<rparr> # post
           \<and> version q' = (if as = [] \<and> answers a = [] then version q else version q + 1)"
    using p by (simp add: q' r active_for_def complete_attempt_def)
  then have "\<exists>pre a post.
           attempts q = pre @ a # post
           \<and> list_all (\<lambda>b. \<not> (student b = uid u \<and> status b = InProgress)) pre
           \<and> student a = uid u \<and> status a = InProgress
           \<and> attempts q' =
               pre @ a\<lparr> answers := as, score := Some (res_score r),
                         percentage := Some (res_percentage r),
                         submittedAt := Some now, status := Completed \<rparr> # post
           \<and> version q' = (if as = [] \<and> answers a = [] then version q else version q + 1)"
    by blast
  then show "title q' = title q \<and> description q' = description q \<and> subject q' = subject q
     \<and> teacher q' = teacher q \<and> questions q' = questions q \<and> totalMarks q' = totalMarks q
     \<and> duration q' = duration q \<and> startDate q' = startDate q \<and> endDate q' = endDate q
     \<and> isActive q' = isActive q \<and> createdAt q' = createdAt q \<and> updatedAt q' = now
     \<and> (\<exists>pre a post.
           attempts q = pre @ a # post
           \<and> list_all (\<lambda>b. \<not> (student b = uid u \<and> status b = InProgress)) pre
           \<and> student a = uid u \<and> status a = InProgress
           \<and> attempts q' =
               pre @ a\<lparr> answers := as, score := Some (res_score r),
                         percentage := Some (res_percentage r),
                         submittedAt := Some now, status := Completed \<rparr> # post
           \<and> version q' = (if as = [] \<and> answers a = [] then version q else version q + 1))"
    by (simp add: q')
qed

lemma submitQuiz_frame_example:
  "submitQuiz (Some frame_quiz) example_student (Answers right_answers) 150
     = Inr (frame_submitted, example_response)"
  by (simp add: submitQuiz_Answers frame_quiz_def frame_submitted_def example_response_def
      example_defs active_for_def complete_attempt_def score_defs)

text \<open>\<^bold>\<open>C10\<close> as stated has nothing of the document change but five fields of the
  attempt. The schema asks for time stamps, so the save also moves \<open>updatedAt\<close>; and the
  save, which sets the array of the answers, increments the version key \<^verbatim>\<open>__v\<close>.\<close>

theorem submitQuiz_frame_counterexample:
  "submitQuiz (Some frame_quiz) example_student (Answers right_answers) 150
     = Inr (frame_submitted, example_response)
   \<and> updatedAt frame_quiz = 130 \<and> updatedAt frame_submitted = 150
   \<and> version frame_quiz = 3 \<and> version frame_submitted = 4"
proof (intro conjI)
  show "submitQuiz (Some frame_quiz) example_student (Answers right_answers) 150
     = Inr (frame_submitted, example_response)"
    by (rule submitQuiz_frame_example)
qed (simp_all add: frame_quiz_def frame_submitted_def)

text \<open>The theorem at a quiz with three attempts, the middle one of the student.\<close>

theorem submitQuiz_frame_witness:
  "submitQuiz (Some frame_quiz) example_student (Answers right_answers) 150
     = Inr (frame_submitted, example_response)
   \<and> (title frame_submitted = title frame_quiz
     \<and> description frame_submitted = description frame_quiz
     \<and> subject frame_submitted = subject frame_quiz
     \<and> teacher frame_submitted = teacher frame_quiz
     \<and> questions frame_submitted = questions frame_quiz
     \<and> totalMarks frame_submitted = totalMarks frame_quiz
     \<and> duration frame_submitted = duration frame_quiz
     \<and> startDate frame_submitted = startDate frame_quiz
     \<and> endDate frame_submitted = endDate frame_quiz
     \<and> isActive frame_submitted = isActive frame_quiz
     \<and> createdAt frame_submitted = createdAt frame_quiz
     \<and> updatedAt frame_submitted = 150
     \<and> (\<exists>pre a post.
           attempts frame_quiz = pre @ a # post
           \<and> list_all (\<lambda>b. \<not> (student b = uid example_student \<and> status b = InProgress)) pre
           \<and> student a = uid example_student \<and> status a = InProgress
           \<and> attempts frame_submitted =
               pre @ a\<lparr> answers := right_answers, score := Some (res_score example_response),
                         percentage := Some (res_percentage example_response),
                         submittedAt := Some 150, status := Completed \<rparr> # post
           \<and> version frame_submitted = version frame_quiz + 1))"
proof -
  have n: "right_answers \<noteq> []"
    by (simp add: right_answers_def)
  from mp [OF submitQuiz_frame submitQuiz_frame_example] n
  have "title frame_submitted = title frame_quiz
     \<and> description frame_submitted = description frame_quiz
     \<and> subject frame_submitted = subject frame_quiz
     \<and> teacher frame_submitted = teacher frame_quiz
     \<and> questions frame_submitted = questions frame_quiz
     \<and> totalMarks frame_submitted = totalMarks frame_quiz
     \<and> duration frame_submitted = duration frame_quiz
     \<and> startDate frame_submitted = startDate frame_quiz
     \<and> endDate frame_submitted = endDate frame_quiz
     \<and> isActive frame_submitted = isActive frame_quiz
     \<and> createdAt frame_submitted = createdAt frame_quiz
     \<and> updatedAt frame_submitted = 150
     \<and> (\<exists>pre a post.
           attempts frame_quiz = pre @ a # post
           \<and> list_all (\<lambda>b. \<not> (student b = uid example_student \<and> status b = InProgress)) pre
           \<and> student a = uid example_student \<and> status a = InProgress
           \<and> attempts frame_submitted =
               pre @ a\<lparr> answers := right_answers, score := Some (res_score example_response),
                         percentage := Some (res_percentage example_response),
                         submittedAt := Some 150, status := Completed \<rparr> # post
           \<and> version frame_submitted = version frame_quiz + 1)"
    by (simp only: if_False simp_thms)
  with submitQuiz_frame_example show ?thesis ..
qed

subsection \<open>Two startQuiz calls of one student in flight\<close>

lemma racing_interleaved:
  "foldl advance racing_server [0, 1, 0, 1] =
     \<lparr> stored = example_created\<lparr>attempts := [new_attempt 7 120, new_attempt 7 121],
                  updatedAt := 121, version := 2\<rparr>,
       calls =
         [\<lparr> caller = example_student, clock = 120,
            phase = Answered (Inr (quizData (example_created\<lparr>attempts := [new_attempt 7 120],
                      updatedAt := 120, version := 1\<rparr>))) \<rparr>,
          \<lparr> caller = example_student, clock = 121,
            phase = Answered (Inr (quizData (example_created\<lparr>attempts := [new_attempt 7 121],
                      updatedAt := 121, version := 1\<rparr>))) \<rparr>] \<rparr>"
  by (simp add: racing_server_def advance_def Let_def startQuiz_Some save_pushed_def
      example_created_def example_student_def)

lemma racing_sequential:
  "foldl advance racing_server [0, 0, 1, 1] =
     \<lparr> stored = example_created\<lparr>attempts := [new_attempt 7 120], updatedAt := 120,
                  version := 1\<rparr>,
       calls =
         [\<lparr> caller = example_student, clock = 120,
            phase = Answered (Inr (quizData (example_created\<lparr>attempts := [new_attempt 7 120],
                      updatedAt := 120, version := 1\<rparr>))) \<rparr>,
          \<lparr> caller = example_student, clock = 121,
            phase = Answered (Inl AlreadyAttempted) \<rparr>] \<rparr>"
  by (simp add: racing_server_def advance_def Let_def startQuiz_Some save_pushed_def
      example_created_def example_student_def new_attempt_def)

text \<open>
  \<^bold>\<open>C8.\<close> Two calls of \<^verbatim>\<open>startQuiz\<close> by one student on the freshly created example quiz.
  When both have loaded the document before either saves (the schedule
  \<open>[0, 1, 0, 1]\<close>), both succeed, and the store ends with two in-progress attempts of
  the student. When the second loads after the first has saved (\<open>[0, 0, 1, 1]\<close>), the
  second is refused. The handler reads, checks, appends and saves; nothing makes the
  check and the append one step.
\<close>

theorem concurrent_starts_both_succeed:
  "map succeeded (calls (foldl advance racing_server [0, 1, 0, 1])) = [True, True]
   \<and> map student (attempts (stored (foldl advance racing_server [0, 1, 0, 1]))) = [7, 7]
   \<and> map status (attempts (stored (foldl advance racing_server [0, 1, 0, 1]))) = [InProgress, InProgress]
   \<and> map succeeded (calls (foldl advance racing_server [0, 0, 1, 1])) = [True, False]
   \<and> map student (attempts (stored (foldl advance racing_server [0, 0, 1, 1]))) = [7]"
  unfolding racing_interleaved racing_sequential
  by (simp add: succeeded_def new_attempt_def)

section \<open>Further properties of the handlers\<close>

subsection \<open>What createQuiz persists\<close>

lemma sum_marks_foldl: "sum_marks qs = foldl js_add (Fin 0) (map marks qs)"
proof -
  have "foldl (\<lambda>sum q. js_add sum (marks q)) acc qs = foldl js_add acc (map marks qs)" for acc
    by (induction qs arbitrary: acc) simp_all
  then show ?thesis by (simp add: sum_marks_def)
qed

lemma createQuiz_Inr_fields:
  assumes "createQuiz subjects body user now = Inr q"
  shows "totalMarks q = sum_marks (questions q)" and "attempts q = []" and "isActive q"
    and "teacher q = uid user" and "subject q = subjectId body"
    and "subjects (subjectId body) = Some \<lparr> subject_teacher = Some (uid user) \<rparr>"
  using assms by (auto simp: createQuiz_def Let_def split: option.splits if_splits)

text \<open>
  \<^bold>\<open>X1.\<close> The quiz \<^verbatim>\<open>createQuiz\<close> persists has as \<open>totalMarks\<close> the running sum of the marks
  of its questions, which is their exact sum when the marks are natural numbers and
  that sum is at most \<open>2 ^ 53\<close>; it has no attempt, the active flag set, the requester as
  teacher, and the requester is the teacher of the subject it names.
\<close>

theorem createQuiz_totalMarks:
  "createQuiz subjects body user now = Inr q \<longrightarrow>
     totalMarks q = foldl js_add (Fin 0) (map marks (questions q))
     \<and> (list_all natural (map marks (questions q))
          \<and> exact_sum (map marks (questions q)) \<le> 2 ^ 53 \<longrightarrow>
          totalMarks q = Fin (exact_sum (map marks (questions q))))
     \<and> attempts q = [] \<and> isActive q
     \<and> teacher q = uid user \<and> subject q = subjectId body
     \<and> subjects (subjectId body) = Some \<lparr> subject_teacher = Some (uid user) \<rparr>"
proof (intro impI conjI)
  assume c: "createQuiz subjects body user now = Inr q"
  note f = createQuiz_Inr_fields [OF c]
  show t: "totalMarks q = foldl js_add (Fin 0) (map marks (questions q))"
    by (simp only: f(1) sum_marks_foldl)
  show "totalMarks q = Fin (exact_sum (map marks (questions q)))"
    if "list_all natural (map marks (questions q))
          \<and> exact_sum (map marks (questions q)) \<le> 2 ^ 53"
    using that by (simp only: t foldl_js_add_sum)
  show "attempts q = []" by (rule f(2))
  show "isActive q" by (rule f(3))
  show "teacher q = uid user" by (rule f(4))
  show "subject q = subjectId body" by (rule f(5))
  show "subjects (subjectId body) = Some \<lparr> subject_teacher = Some (uid user) \<rparr>" by (rule f(6))
qed

text \<open>The theorem at the example request.\<close>

theorem createQuiz_totalMarks_witness:
  "createQuiz example_subjects example_body example_teacher 50 = Inr example_created
   \<and> list_all natural (map marks (questions example_created))
   \<and> exact_sum (map marks (questions example_created)) \<le> 2 ^ 53
   \<and> exact_sum (map marks (questions example_created)) = 8
   \<and> totalMarks example_created = Fin 8
   \<and> attempts example_created = [] \<and> isActive example_created
   \<and> teacher example_created = uid example_teacher"
proof -
  have n: "list_all natural (map marks (questions example_created))"
    and x: "exact_sum (map marks (questions example_created)) \<le> 2 ^ 53"
    and e: "exact_sum (map marks (questions example_created)) = 8"
    by (simp_all add: example_defs natural_def exact_sum_def)
  note t = createQuiz_totalMarks [where subjects = example_subjects and body = example_body
      and user = example_teacher and now = 50 and q = example_created]
  from t createQuiz_example n x
  have "totalMarks example_created = Fin (exact_sum (map marks (questions example_created)))"
    by blast
  then have m: "totalMarks example_created = Fin 8"
    by (simp only: e)
  from t createQuiz_example have a: "attempts example_created = []" "isActive example_created"
    "teacher example_created = uid example_teacher"
    by blast+
  show ?thesis by (intro conjI createQuiz_example n x e m a)
qed

text \<open>
  \<^bold>\<open>X2.\<close> \<^verbatim>\<open>createQuiz\<close> answers \<open>NotFound\<close> exactly when the subject does not exist, and
  \<open>Forbidden\<close> exactly when the subject has a teacher who is not the requester.
\<close>

theorem createQuiz_authorisation:
  "(createQuiz subjects body user now = Inl NotFound \<longleftrightarrow> subjects (subjectId body) = None)
   \<and> (createQuiz subjects body user now = Inl Forbidden \<longleftrightarrow>
        (\<exists>s t. subjects (subjectId body) = Some s \<and> subject_teacher s = Some t
           \<and> t \<noteq> uid user))"
  by (auto simp: createQuiz_def Let_def split: option.splits if_splits)

text \<open>The theorem for another teacher, and for a subject that does not exist.\<close>

theorem createQuiz_authorisation_witness:
  "createQuiz example_subjects example_body other_teacher 50 = Inl Forbidden
   \<and> createQuiz example_subjects (example_body\<lparr>subjectId := 9\<rparr>) example_teacher 50 = Inl NotFound
   \<and> example_subjects 9 = None
   \<and> example_subjects (subjectId example_body) = Some \<lparr> subject_teacher = Some 2 \<rparr>
   \<and> 2 \<noteq> uid other_teacher"
proof -
  have a: "example_subjects 9 = None"
    "example_subjects (subjectId example_body) = Some \<lparr> subject_teacher = Some 2 \<rparr>"
    "2 \<noteq> uid other_teacher" "subjectId (example_body\<lparr>subjectId := 9\<rparr>) = 9"
    by (simp_all add: example_defs other_teacher_def)
  from a(2,3) have e: "\<exists>s t. example_subjects (subjectId example_body) = Some s
      \<and> subject_teacher s = Some t \<and> t \<noteq> uid other_teacher"
    by simp
  from createQuiz_authorisation [where subjects = example_subjects and body = example_body
      and user = other_teacher and now = 50]
    createQuiz_authorisation [where subjects = example_subjects
      and body = "example_body\<lparr>subjectId := 9\<rparr>" and user = example_teacher and now = 50]
    a e
  show ?thesis by simp
qed

subsection \<open>The life of an attempt\<close>

text \<open>
  \<^bold>\<open>X3.\<close> A successful \<^verbatim>\<open>startQuiz\<close> happens inside the window and for a student without
  attempt; it saves the document it loaded with one attempt appended, in progress,
  started at the clock value and without answers, with \<open>updatedAt\<close> moved to the clock
  value and the version key incremented; it answers that document with the questions
  reduced.
\<close>

theorem startQuiz_effect:
  "startQuiz (Some q) u now = Inr (q', d) \<longrightarrow>
     q' = q\<lparr>attempts := attempts q @
            [\<lparr> student = uid u, answers = [], score = None, percentage = None,
               startedAt = now, submittedAt = None, status = InProgress \<rparr>],
            updatedAt := now, version := version q + 1\<rparr>
     \<and> d = quizData q'
     \<and> startDate q \<le> now \<and> now \<le> endDate q \<and> uid u \<notin> set (map student (attempts q))"
  by (auto simp: startQuiz_Some new_attempt_def find_None_iff split: if_splits)

text \<open>The theorem at the start of the example quiz.\<close>

theorem startQuiz_effect_witness:
  "startQuiz (Some example_created) example_student 120 = Inr (example_quiz, quizData example_quiz)
   \<and> example_quiz = example_created\<lparr>attempts := attempts example_created @
            [\<lparr> student = uid example_student, answers = [], score = None, percentage = None,
               startedAt = 120, submittedAt = None, status = InProgress \<rparr>],
            updatedAt := 120, version := version example_created + 1\<rparr>
   \<and> startDate example_created \<le> 120 \<and> 120 \<le> endDate example_created"
  using startQuiz_effect [where q = example_created and u = example_student and now = 120
      and q' = example_quiz and d = "quizData example_quiz"] startQuiz_example
  by simp

lemma update_first_nth:
  "i < length xs \<Longrightarrow> \<not> P (xs ! i) \<Longrightarrow> update_first P f xs ! i = xs ! i"
proof (induction xs arbitrary: i)
  case Nil
  then show ?case by simp
next
  case (Cons x xs)
  then show ?case by (cases i) auto
qed

lemma length_update_first: "length (update_first P f xs) = length xs"
  by (induction xs) simp_all

lemma handle_completed:
  assumes "i < length (attempts q)" and "status (attempts q ! i) = Completed"
  shows "i < length (attempts (handle q r)) \<and> attempts (handle q r) ! i = attempts q ! i"
proof (cases r)
  case (Start u now)
  show ?thesis
  proof (cases "startQuiz (Some q) u now")
    case (Inl e)
    with Start assms show ?thesis by simp
  next
    case (Inr p)
    then show ?thesis
      using Start assms by (auto simp: startQuiz_Some nth_append split: if_splits)
  qed
next
  case (Submit u body now)
  show ?thesis
  proof (cases "submitQuiz (Some q) u body now")
    case (Inl e)
    with Submit assms show ?thesis by simp
  next
    case (Inr p)
    obtain q' r where p: "p = (q', r)" by (cases p)
    from Inr p obtain as where b: "body = Answers as"
      by (auto elim: submitQuiz_Inr_body)
    from assms have "\<not> active_for u (attempts q ! i)"
      by (simp add: active_for_def)
    with Inr Submit assms b show ?thesis
      by (auto simp: submitQuiz_Answers update_first_nth length_update_first split: if_splits)
  qed
qed

text \<open>
  \<^bold>\<open>X4.\<close> A completed attempt is final: whatever start and submit requests follow, it
  stays at its position in \<^verbatim>\<open>attempts\<close> with every field as it was.
\<close>

theorem completed_is_terminal:
  "i < length (attempts q) \<and> status (attempts q ! i) = Completed \<longrightarrow>
     i < length (attempts (foldl handle q rs)) \<and> attempts (foldl handle q rs) ! i = attempts q ! i"
proof (induction rs arbitrary: q)
  case Nil
  show ?case by simp
next
  case (Cons r rs)
  show ?case
  proof
    assume a: "i < length (attempts q) \<and> status (attempts q ! i) = Completed"
    then have h: "i < length (attempts (handle q r)) \<and> attempts (handle q r) ! i = attempts q ! i"
      using handle_completed by blast
    with a have "i < length (attempts (handle q r)) \<and> status (attempts (handle q r) ! i) = Completed"
      by simp
    with Cons.IH [of "handle q r"] h
    show "i < length (attempts (foldl handle q (r # rs)))
        \<and> attempts (foldl handle q (r # rs)) ! i = attempts q ! i"
      by simp
  qed
qed

text \<open>The theorem at the completed example quiz and three further requests.\<close>

theorem completed_is_terminal_witness:
  "0 < length (attempts example_completed) \<and> status (attempts example_completed ! 0) = Completed
   \<and> 0 < length (attempts (foldl handle example_completed example_requests))
   \<and> attempts (foldl handle example_completed example_requests) ! 0 = attempts example_completed ! 0"
proof -
  have a: "0 < length (attempts example_completed)"
    "status (attempts example_completed ! 0) = Completed"
    by (simp_all add: example_completed_def example_defs complete_attempt_def)
  from completed_is_terminal [where i = 0 and q = example_completed and rs = example_requests] a
  show ?thesis by simp
qed


end
